theory Spec2Isabelle
  imports Main "HOL-Library.Word"
begin

unbundle bit_operations_syntax

section \<open>Python values used by the checkpoint store\<close>

text \<open>
  A Python \<open>str\<close> is modelled as a \<^typ>\<open>string\<close>: a list of characters, each standing for
  the code point of the same number (U+0000 to U+00FF). A \<open>dict\<close> is an association list
  in insertion order with distinct keys, as Python dictionaries and the JSON documents
  loaded from and dumped to disk keep their insertion order.
\<close>

type_synonym str = string

type_synonym ('k, 'v) dict = "('k \<times> 'v) list"

text \<open>\<open>d[k] = v\<close>: an existing key keeps its position, a new key goes to the end.\<close>

fun dict_setitem :: "'k \<Rightarrow> 'v \<Rightarrow> ('k, 'v) dict \<Rightarrow> ('k, 'v) dict" where
  "dict_setitem k v [] = [(k, v)]"
| "dict_setitem k v ((k', v') # d) =
     (if k' = k then (k, v) # d else (k', v') # dict_setitem k v d)"

text \<open>\<open>d.keys()\<close>, in iteration order.\<close>

definition dict_keys :: "('k, 'v) dict \<Rightarrow> 'k list" where
  "dict_keys d = map fst d"

text \<open>\<open>sep.join(xs)\<close>.\<close>

fun str_join :: "str \<Rightarrow> str list \<Rightarrow> str" where
  "str_join sep [] = []"
| "str_join sep [x] = x"
| "str_join sep (x # y # ys) = x @ sep @ str_join sep (y # ys)"

text \<open>\<open>s.split(sep)\<close> for a separator of one character; \<open>''.split(',')\<close> is \<open>['']\<close>.\<close>

fun str_split :: "char \<Rightarrow> str \<Rightarrow> str list" where
  "str_split sep [] = [[]]"
| "str_split sep (c # cs) =
     (if c = sep then [] # str_split sep cs
      else (case str_split sep cs of
              [] \<Rightarrow> [[c]]
            | w # ws \<Rightarrow> (c # w) # ws))"

datatype error = ValueError | TypeError | KeyError | FileNotFoundError

datatype 'a result = Returns 'a | Raises error

section \<open>sdss_utils.get_hash\<close>

subsection \<open>str.encode('utf-8') and hashlib.sha1\<close>

type_synonym byte = "8 word"

text \<open>UTF-8 of a code point below U+0100: one byte below U+0080, two bytes from there.\<close>

definition utf8_char :: "char \<Rightarrow> byte list" where
  "utf8_char c =
     (let n = (of_char c :: nat)
      in if n < 128 then [word_of_nat n]
         else [0xC0 OR word_of_nat (n div 64), 0x80 OR word_of_nat (n mod 64)])"

definition encode_utf8 :: "str \<Rightarrow> byte list" where
  "encode_utf8 s = concat (map utf8_char s)"

type_synonym w32 = "32 word"

definition rotl :: "nat \<Rightarrow> w32 \<Rightarrow> w32" where
  "rotl n w = (push_bit n w) OR (drop_bit (32 - n) w)"

definition be32 :: "byte list \<Rightarrow> w32" where
  "be32 bs = foldl (\<lambda>acc b. push_bit 8 acc OR ucast b) 0 bs"

fun chunks :: "nat \<Rightarrow> 'a list \<Rightarrow> 'a list list" where
  "chunks n [] = []"
| "chunks n xs = (if n = 0 then [xs] else take n xs # chunks n (drop n xs))"

text \<open>
  Padding of SHA-1 (FIPS 180-4): the byte 0x80, zero bytes up to 56 modulo 64, and the
  length of the message in bits as a big-endian 64-bit number.
\<close>

definition sha1_pad :: "byte list \<Rightarrow> byte list" where
  "sha1_pad m =
     (let l = length m;
          z = (119 - l mod 64) mod 64;
          bits = (word_of_nat (8 * l) :: 64 word)
      in m @ [0x80] @ replicate z 0 @
         map (\<lambda>i. ucast (drop_bit (8 * (7 - i)) bits)) [0..<8])"

fun schedule :: "nat \<Rightarrow> w32 list \<Rightarrow> w32 list" where
  "schedule 0 w = w"
| "schedule (Suc n) w =
     (let i = length w
      in schedule n
           (w @ [rotl 1 (w ! (i - 3) XOR w ! (i - 8) XOR w ! (i - 14) XOR w ! (i - 16))]))"

type_synonym sha1_state = "w32 \<times> w32 \<times> w32 \<times> w32 \<times> w32"

fun sha1_round :: "sha1_state \<Rightarrow> nat \<times> w32 \<Rightarrow> sha1_state" where
  "sha1_round (a, b, c, d, e) (i, wi) =
     (let (f, k) =
            (if i < 20 then ((b AND c) OR (NOT b AND d), 0x5A827999)
             else if i < 40 then (b XOR c XOR d, 0x6ED9EBA1)
             else if i < 60 then ((b AND c) OR (b AND d) OR (c AND d), 0x8F1BBCDC)
             else (b XOR c XOR d, 0xCA62C1D6));
          temp = rotl 5 a + f + e + k + wi
      in (temp, a, rotl 30 b, c, d))"

fun sha1_block :: "sha1_state \<Rightarrow> byte list \<Rightarrow> sha1_state" where
  "sha1_block (h0, h1, h2, h3, h4) blk =
     (let w = schedule 64 (map be32 (chunks 4 blk));
          (a, b, c, d, e) = foldl sha1_round (h0, h1, h2, h3, h4) (zip [0..<80] w)
      in (h0 + a, h1 + b, h2 + c, h3 + d, h4 + e))"

definition sha1 :: "byte list \<Rightarrow> sha1_state" where
  "sha1 m =
     foldl sha1_block (0x67452301, 0xEFCDAB89, 0x98BADCFE, 0x10325476, 0xC3D2E1F0)
       (chunks 64 (sha1_pad m))"

definition hex_digit :: "nat \<Rightarrow> char" where
  "hex_digit n = ''0123456789abcdef'' ! n"

definition hex32 :: "w32 \<Rightarrow> str" where
  "hex32 w = map (\<lambda>i. hex_digit (unat (drop_bit (4 * (7 - i)) w AND 0xF))) [0..<8]"

fun hexdigest :: "sha1_state \<Rightarrow> str" where
  "hexdigest (h0, h1, h2, h3, h4) = hex32 h0 @ hex32 h1 @ hex32 h2 @ hex32 h3 @ hex32 h4"

subsection \<open>get_hash\<close>

text \<open>
  \<^verbatim>\<open>combined_str = ''.join(iterable)
  return sha1(combined_str.encode('utf-8')).hexdigest()\<close>
\<close>

definition get_hash :: "str list \<Rightarrow> str" where
  "get_hash iterable =
     (let combined_str = str_join [] iterable
      in hexdigest (sha1 (encode_utf8 combined_str)))"

section \<open>checkpoint_objects.CheckPointer\<close>

subsection \<open>The object shape\<close>

text \<open>
  The store is generic in its \<open>metaclass\<close>. It uses the class in three ways: it calls
  it on the fields of a dictionary (\<open>metaclass(**kwargs)\<close>, which raises \<open>TypeError\<close>
  when the fields are not those of the class: \<open>None\<close> here), it tests candidates with
  \<open>isinstance\<close>, and it reads the attribute \<open>key\<close> of an instance, a \<open>str\<close> as the
  dataclass declares it.
\<close>

record ('d, 'o) metaclass =
  new :: "'d \<Rightarrow> 'o option"
  key_of :: "'o \<Rightarrow> str"

text \<open>
  An element of \<open>meta_objects\<close>: a \<open>dict\<close> of fields, an instance of the metaclass, or
  any other Python object.
\<close>

datatype ('d, 'o) candidate = Dict 'd | Instance 'o | Foreign

text \<open>
  The dataclass of the repository. The store never reads the five fields after \<open>key\<close>;
  their values are Python objects, named here by numbers.
\<close>

datatype pyval = PyStr str | PyVal nat

record RedShiftCheckPointObject =
  key :: str
  np_array :: pyval
  redshift :: pyval
  galaxy_meta :: pyval
  image :: pyval
  timestamp :: pyval

text \<open>
  The generated \<open>__init__\<close> \<^emph>\<open>called with keyword arguments\<close>: it raises \<open>TypeError\<close> on a
  missing or an unexpected field name. A \<open>key\<close> that is not a \<open>str\<close> makes \<open>save_objects\<close>
  raise \<open>TypeError\<close> as well (from \<open>''.join\<close> in \<open>get_hash\<close>, before anything is written);
  the model reports it here.
\<close>

definition RedShiftCheckPointObject_init ::
    "(str, pyval) dict \<Rightarrow> RedShiftCheckPointObject option" where
  "RedShiftCheckPointObject_init kwargs =
     (if set (dict_keys kwargs) =
           {''key'', ''np_array'', ''redshift'', ''galaxy_meta'', ''image'', ''timestamp''}
      then (case map_of kwargs ''key'' of
              Some (PyStr k) \<Rightarrow>
                Some \<lparr>key = k,
                      np_array = the (map_of kwargs ''np_array''),
                      redshift = the (map_of kwargs ''redshift''),
                      galaxy_meta = the (map_of kwargs ''galaxy_meta''),
                      image = the (map_of kwargs ''image''),
                      timestamp = the (map_of kwargs ''timestamp'')\<rparr>
            | _ \<Rightarrow> None)
      else None)"

definition RedShiftCheckPointObject_class ::
    "((str, pyval) dict, RedShiftCheckPointObject) metaclass" where
  "RedShiftCheckPointObject_class = \<lparr>new = RedShiftCheckPointObject_init, key_of = key\<rparr>"

subsection \<open>The store and its files\<close>

text \<open>
  The three kinds of files under the checkpoint directory and the attributes of the
  instance: \<open>objs_in_disk\<close> is the content of \<open><guid>.txt\<close> (\<open>None\<close>: no such file),
  \<open>metadata_file\<close> the JSON object of \<open>metadata.json\<close> (\<open>None\<close>: no such file),
  \<open>pkl_dir\<close> the pickled dictionaries by file name.
\<close>

record ('d, 'o) CheckPointer =
  objs_in_disk :: "str option"
  metadata_file :: "(str, str list) dict option"
  pkl_dir :: "(str, (str, 'o) dict) dict"
  obj_set :: "str set"
  last_modified :: nat
  max_objects :: int
  metaclass :: "('d, 'o) metaclass"

text \<open>
  The body of the loop of \<open>save_objects\<close> up to the test of the key: the candidate as an
  instance of the metaclass, or \<open>TypeError\<close>.
\<close>

definition as_instance :: "('d, 'o) metaclass \<Rightarrow> ('d, 'o) candidate \<Rightarrow> 'o result" where
  "as_instance mc obj_or_kwargs =
     (case obj_or_kwargs of
        Dict kwargs \<Rightarrow> (case new mc kwargs of None \<Rightarrow> Raises TypeError | Some x \<Rightarrow> Returns x)
      | Instance x \<Rightarrow> Returns x
      | Foreign \<Rightarrow> Raises TypeError)"

text \<open>
  The loop of \<open>save_objects\<close> over \<open>meta_objects\<close>, with its two accumulators. \<open>obj_set\<close>
  does not change while the loop runs.
\<close>

fun collect ::
    "('d, 'o) metaclass \<Rightarrow> str set \<Rightarrow> ('d, 'o) candidate list \<Rightarrow>
     str list \<times> (str, 'o) dict \<Rightarrow> (str list \<times> (str, 'o) dict) result" where
  "collect mc seen [] (keys_to_save, objects_to_save) = Returns (keys_to_save, objects_to_save)"
| "collect mc seen (obj_or_kwargs # rest) (keys_to_save, objects_to_save) =
     (case as_instance mc obj_or_kwargs of
        Raises e \<Rightarrow> Raises e
      | Returns current_object \<Rightarrow>
          (if key_of mc current_object \<notin> seen
           then collect mc seen rest
                  (keys_to_save @ [key_of mc current_object],
                   dict_setitem (key_of mc current_object) current_object objects_to_save)
           else collect mc seen rest (keys_to_save, objects_to_save)))"

definition save_pkl ::
    "(str, 'o) dict \<Rightarrow> ('d, 'o) CheckPointer \<Rightarrow> ('d, 'o) CheckPointer" where
  "save_pkl objects_to_save self =
     (let filename = get_hash (dict_keys objects_to_save) @ ''.pkl'';
          metadata = (case metadata_file self of Some m \<Rightarrow> m | None \<Rightarrow> [])
      in self\<lparr>pkl_dir := dict_setitem filename objects_to_save (pkl_dir self),
              metadata_file :=
                Some (dict_setitem filename (dict_keys objects_to_save) metadata)\<rparr>)"

definition update_objects_on_disk ::
    "str list \<Rightarrow> ('d, 'o) CheckPointer \<Rightarrow> ('d, 'o) CheckPointer" where
  "update_objects_on_disk keys_to_save self =
     self\<lparr>objs_in_disk :=
             Some ((case objs_in_disk self of None \<Rightarrow> [] | Some t \<Rightarrow> t) @
                   str_join '','' keys_to_save @ '',''),
          obj_set := obj_set self \<union> set keys_to_save\<rparr>"

text \<open>
  \<open>save_objects\<close>; \<open>now\<close> is what \<open>time.time()\<close> returns in this call. The result is the
  outcome of the call and the store as the call leaves it, also when it raises.
\<close>

definition save_objects ::
    "nat \<Rightarrow> ('d, 'o) candidate list option \<Rightarrow> ('d, 'o) CheckPointer \<Rightarrow>
     unit result \<times> ('d, 'o) CheckPointer" where
  "save_objects now meta_objects self =
     (case meta_objects of
        None \<Rightarrow> (Returns (), self)
      | Some objs \<Rightarrow>
          if int (length objs) > max_objects self then (Raises ValueError, self)
          else (case collect (metaclass self) (obj_set self) objs ([], []) of
                  Raises e \<Rightarrow> (Raises e, self)
                | Returns (keys_to_save, objects_to_save) \<Rightarrow>
                    if length objects_to_save > 0
                    then (Returns (),
                          (update_objects_on_disk keys_to_save
                             (save_pkl objects_to_save self))\<lparr>last_modified := now\<rparr>)
                    else (Returns (), self)))"

text \<open>The loop of \<open>get_specific_object\<close> over \<open>meta_dict.items()\<close>.\<close>

fun find_tgt_file :: "str \<Rightarrow> (str, str list) dict \<Rightarrow> str option \<Rightarrow> str option" where
  "find_tgt_file obj_key [] tgt_file = tgt_file"
| "find_tgt_file obj_key ((k, v) # rest) tgt_file =
     find_tgt_file obj_key rest (if obj_key \<in> set v then Some k else tgt_file)"

definition get_specific_object :: "str \<Rightarrow> ('d, 'o) CheckPointer \<Rightarrow> 'o result" where
  "get_specific_object obj_key self =
     (case metadata_file self of
        None \<Rightarrow> Raises KeyError
      | Some meta_dict \<Rightarrow>
          (case find_tgt_file obj_key meta_dict None of
             None \<Rightarrow> Raises KeyError
           | Some tgt_file \<Rightarrow>
               (case map_of (pkl_dir self) tgt_file of
                  None \<Rightarrow> Raises FileNotFoundError
                | Some objects_dict \<Rightarrow>
                    (case map_of objects_dict obj_key of
                       None \<Rightarrow> Raises KeyError
                     | Some x \<Rightarrow> Returns x))))"

definition return_all_objects_info :: "('d, 'o) CheckPointer \<Rightarrow> (str, str list) dict" where
  "return_all_objects_info self = (case metadata_file self of None \<Rightarrow> [] | Some m \<Rightarrow> m)"

definition return_objects_for :: "str \<Rightarrow> ('d, 'o) CheckPointer \<Rightarrow> (str, 'o) dict result" where
  "return_objects_for checkpoint_file self =
     (case map_of (pkl_dir self) checkpoint_file of
        None \<Rightarrow> Raises FileNotFoundError
      | Some objects \<Rightarrow> Returns objects)"

text \<open>
  \<open>__init__\<close> on a checkpoint directory holding the files \<open>ledger\<close>, \<open>meta\<close> and \<open>pkls\<close>;
  \<open>mtime\<close> is what \<open>os.path.getmtime\<close> returns for the ledger file, \<open>t0\<close> and \<open>t1\<close>
  what \<open>time.time()\<close> returns in \<open>__init__\<close> and in its call of \<open>save_objects\<close>.
\<close>

definition init ::
    "str option \<Rightarrow> (str, str list) dict option \<Rightarrow> (str, (str, 'o) dict) dict \<Rightarrow>
     nat \<Rightarrow> nat \<Rightarrow> nat \<Rightarrow>
     ('d, 'o) metaclass \<Rightarrow> bool \<Rightarrow> ('d, 'o) candidate list option \<Rightarrow> int \<Rightarrow>
     unit result \<times> ('d, 'o) CheckPointer" where
  "init ledger meta pkls mtime t0 t1 mc overwrite meta_objects maxo =
     (let ledger' = (if overwrite then None else ledger);
          meta' = (if overwrite then None else meta);
          pkls' = (if overwrite then [] else pkls);
          self = \<lparr>objs_in_disk = ledger', metadata_file = meta', pkl_dir = pkls',
                  obj_set = (case ledger' of
                               Some content \<Rightarrow> set (str_split CHR '','' content)
                             | None \<Rightarrow> {}),
                  last_modified = (case ledger' of Some _ \<Rightarrow> mtime | None \<Rightarrow> t0),
                  max_objects = maxo, metaclass = mc\<rparr>
      in save_objects t1 meta_objects self)"

text \<open>A store constructed on an empty checkpoint directory, with no initial batch.\<close>

definition empty_store :: "nat \<Rightarrow> ('d, 'o) metaclass \<Rightarrow> int \<Rightarrow> ('d, 'o) CheckPointer" where
  "empty_store t0 mc maxo = snd (init None None [] 0 t0 t0 mc False None maxo)"

text \<open>
  A sequence of \<open>save_objects\<close> calls, each with its clock reading and its batch, all of
  which return; \<open>None\<close> when one of them raises.
\<close>

fun save_all ::
    "(nat \<times> ('d, 'o) candidate list option) list \<Rightarrow> ('d, 'o) CheckPointer \<Rightarrow>
     ('d, 'o) CheckPointer option" where
  "save_all [] self = Some self"
| "save_all ((now, meta_objects) # calls) self =
     (case save_objects now meta_objects self of
        (Returns _, self') \<Rightarrow> save_all calls self'
      | (Raises _, _) \<Rightarrow> None)"

section \<open>Notions used in the statements\<close>

text \<open>
  The candidates of a batch that pass the shape test, as instances and in order; whether
  a candidate passes; the instances whose key is not in \<open>seen\<close>, which are the objects
  the loop of \<open>save_objects\<close> accepts; and the dictionary the loop builds from them.
\<close>

definition instances :: "('d, 'o) metaclass \<Rightarrow> ('d, 'o) candidate list \<Rightarrow> 'o list" where
  "instances mc objs =
     concat (map (\<lambda>c. case as_instance mc c of Returns x \<Rightarrow> [x] | Raises _ \<Rightarrow> []) objs)"

definition well_shaped :: "('d, 'o) metaclass \<Rightarrow> ('d, 'o) candidate \<Rightarrow> bool" where
  "well_shaped mc c = (case as_instance mc c of Returns _ \<Rightarrow> True | Raises _ \<Rightarrow> False)"

definition unseen :: "('d, 'o) metaclass \<Rightarrow> str set \<Rightarrow> ('d, 'o) candidate list \<Rightarrow> 'o list" where
  "unseen mc seen objs = filter (\<lambda>x. key_of mc x \<notin> seen) (instances mc objs)"

definition store_each :: "('d, 'o) metaclass \<Rightarrow> 'o list \<Rightarrow> (str, 'o) dict \<Rightarrow> (str, 'o) dict" where
  "store_each mc xs d = fold (\<lambda>x. dict_setitem (key_of mc x) x) xs d"

text \<open>A list without the repetitions of its elements: each element where it first occurs.\<close>

fun first_occurrences :: "'a list \<Rightarrow> 'a list" where
  "first_occurrences [] = []"
| "first_occurrences (x # xs) = x # first_occurrences (filter (\<lambda>y. y \<noteq> x) xs)"

text \<open>The name of the pickle file that \<open>_save_pkl\<close> writes for a dictionary with these keys.\<close>

definition pkl_name :: "str list \<Rightarrow> str" where
  "pkl_name ks = get_hash ks @ ''.pkl''"

text \<open>All keys of the index document, entry by entry.\<close>

definition index_keys :: "('d, 'o) CheckPointer \<Rightarrow> str list" where
  "index_keys self = concat (map snd (return_all_objects_info self))"

text \<open>The entries of the index document that list a key.\<close>

definition entries_with :: "str \<Rightarrow> (str, str list) dict \<Rightarrow> (str, str list) dict" where
  "entries_with k meta = filter (\<lambda>(f, ks). k \<in> set ks) meta"

text \<open>The stored copies of a key: the objects under that key in the pickle files.\<close>

definition stored_copies :: "str \<Rightarrow> ('d, 'o) CheckPointer \<Rightarrow> 'o list" where
  "stored_copies k self =
     concat (map (\<lambda>(f, d). map snd (filter (\<lambda>(k', x). k' = k) d)) (pkl_dir self))"

text \<open>
  Every entry of the index document names a pickle file that holds exactly the keys the
  entry lists: what \<open>_save_pkl\<close> writes, a file and its entry together.
\<close>

definition blobs_match_index :: "('d, 'o) CheckPointer \<Rightarrow> bool" where
  "blobs_match_index self =
     list_all (\<lambda>(f, ks). case map_of (pkl_dir self) f of
                            None \<Rightarrow> False
                          | Some d \<Rightarrow> dict_keys d = ks)
       (return_all_objects_info self)"

text \<open>
  What holds of every store that \<open>save_objects\<close> has built from an empty directory: the
  index document lists the pickle files with their keys, in the order of the directory;
  no file name occurs twice; and every key in a file is in \<open>obj_set\<close>.
\<close>

definition store_inv :: "('d, 'o) CheckPointer \<Rightarrow> bool" where
  "store_inv self =
     (map (\<lambda>(f, d). (f, dict_keys d)) (pkl_dir self) = return_all_objects_info self
      \<and> distinct (dict_keys (pkl_dir self))
      \<and> set (index_keys self) \<subseteq> obj_set self)"

text \<open>The ledger file as \<open>_update_objects_on_disk\<close> leaves it after these lists of keys.\<close>

definition ledger_of :: "str list list \<Rightarrow> str" where
  "ledger_of kss = concat (map (\<lambda>ks. str_join '','' ks @ '','') kss)"

text \<open>An instance of the dataclass with the key \<open>k\<close>; \<open>p\<close> tells payloads apart.\<close>

definition galaxy :: "str \<Rightarrow> nat \<Rightarrow> RedShiftCheckPointObject" where
  "galaxy k p =
     \<lparr>key = k, np_array = PyVal p, redshift = PyVal 0, galaxy_meta = PyVal 0,
      image = PyStr ''path/to/image'', timestamp = PyVal 0\<rparr>"

text \<open>The same object as the dictionary of its fields.\<close>

definition galaxy_fields :: "str \<Rightarrow> nat \<Rightarrow> (str, pyval) dict" where
  "galaxy_fields k p =
     [(''key'', PyStr k), (''np_array'', PyVal p), (''redshift'', PyVal 0),
      (''galaxy_meta'', PyVal 0), (''image'', PyStr ''path/to/image''),
      (''timestamp'', PyVal 0)]"

type_synonym galaxy_store = "((str, pyval) dict, RedShiftCheckPointObject) CheckPointer"

text \<open>A store of the dataclass on an empty directory, with the default threshold.\<close>

definition new_store :: galaxy_store where
  "new_store = empty_store 0 RedShiftCheckPointObject_class 1000"

text \<open>
  The local variable \<open>keys_to_save\<close> when the loop of \<open>save_objects\<close> has run through a
  batch: the keys of the accepted objects, one for each of them.
\<close>

definition keys_to_save :: "('d, 'o) CheckPointer \<Rightarrow> ('d, 'o) candidate list \<Rightarrow> str list" where
  "keys_to_save self objs =
     map (key_of (metaclass self)) (unseen (metaclass self) (obj_set self) objs)"

text \<open>The objects of a batch that carry the key \<open>k\<close>, in the order of the batch.\<close>

definition occurrences :: "str \<Rightarrow> ('d, 'o) CheckPointer \<Rightarrow> ('d, 'o) candidate list \<Rightarrow> 'o list" where
  "occurrences k self objs =
     filter (\<lambda>x. key_of (metaclass self) x = k) (instances (metaclass self) objs)"

text \<open>
  A checkpoint directory in which, against the invariant, two pickle files and their
  index entries hold the key \<open>b\<close>.
\<close>

definition two_blob_store :: galaxy_store where
  "two_blob_store =
     \<lparr>objs_in_disk = Some ''a,b,c,'',
      metadata_file =
        Some [(''f1.pkl'', [''a'', ''b'']), (''f2.pkl'', [''b'', ''c''])],
      pkl_dir =
        [(''f1.pkl'', [(''a'', galaxy ''a'' 1), (''b'', galaxy ''b'' 2)]),
         (''f2.pkl'', [(''b'', galaxy ''b'' 3), (''c'', galaxy ''c'' 4)])],
      obj_set = {''a'', ''b'', ''c''},
      last_modified = 0, max_objects = 1000,
      metaclass = RedShiftCheckPointObject_class\<rparr>"

text \<open>The store of the dataclass after a first batch of one object.\<close>

definition first_save :: galaxy_store where
  "first_save = snd (save_objects 1 (Some [Instance (galaxy ''0'' 1)]) new_store)"

text \<open>
  Two batches whose keys to save, \<open>ab\<close> and then \<open>a\<close>, \<open>b\<close>, are the same string when
  joined: the store after the first, and after both.
\<close>

definition ab_saved :: galaxy_store where
  "ab_saved = snd (save_objects 10 (Some [Instance (galaxy ''ab'' 11)]) new_store)"

definition collided :: galaxy_store where
  "collided =
     snd (save_objects 20 (Some [Instance (galaxy ''a'' 12), Instance (galaxy ''b'' 13)]) ab_saved)"

text \<open>
  A second instance of the store, constructed on the directory that \<open>first_save\<close> has
  left, without \<open>overwrite\<close> and without a batch.
\<close>

definition reloaded :: galaxy_store where
  "reloaded =
     snd (init (objs_in_disk first_save) (metadata_file first_save) (pkl_dir first_save)
            3 4 4 RedShiftCheckPointObject_class False None 1000)"

text \<open>
  The store of \<open>test_checkpoint_objects.py\<close>: constructed with \<open>overwrite\<close> and the
  dictionaries with the keys \<open>0\<close> to \<open>4\<close>, then given those with the keys \<open>4\<close> to \<open>9\<close>.
\<close>

definition test_store :: galaxy_store where
  "test_store =
     snd (save_objects 20
            (Some (map (\<lambda>k. Dict (galaxy_fields k 8)) [''4'', ''5'', ''6'', ''7'', ''8'', ''9'']))
            (snd (init None None [] 0 10 11 RedShiftCheckPointObject_class True
                    (Some (map (\<lambda>k. Dict (galaxy_fields k 7)) [''0'', ''1'', ''2'', ''3'', ''4'']))
                    1000)))"

section \<open>Proofs\<close>

subsection \<open>Strings and dictionaries\<close>

lemma str_join_empty_sep: "str_join [] xs = concat xs"
  by (induction xs rule: induct_list012) simp_all


lemma get_hash_concat: "get_hash xs = hexdigest (sha1 (encode_utf8 (concat xs)))"
  by (simp add: get_hash_def str_join_empty_sep)

lemma dict_keys_setitem:
  "dict_keys (dict_setitem k v d) =
     (if k \<in> set (dict_keys d) then dict_keys d else dict_keys d @ [k])"
proof (induction d)
  case Nil
  show ?case by (simp add: dict_keys_def)
next
  case (Cons p d)
  obtain k' v' where p: "p = (k', v')" by (cases p)
  show ?case
  proof (cases "k' = k")
    case True
    then show ?thesis by (simp add: p dict_keys_def)
  next
    case False
    with Cons show ?thesis by (simp add: p dict_keys_def)
  qed
qed

lemma set_dict_keys_setitem:
  "set (dict_keys (dict_setitem k v d)) = insert k (set (dict_keys d))"
  by (auto simp: dict_keys_setitem)

lemma distinct_dict_keys_setitem:
  "distinct (dict_keys d) \<Longrightarrow> distinct (dict_keys (dict_setitem k v d))"
  by (simp add: dict_keys_setitem)

lemma map_of_dict_setitem: "map_of (dict_setitem k v d) = (map_of d)(k \<mapsto> v)"
  by (induction d) (auto simp: fun_eq_iff)

lemma dict_setitem_not_empty: "dict_setitem k v d \<noteq> []"
  by (cases d) (auto split: if_splits)

lemma map_dict_setitem:
  "map (\<lambda>(f, d). (f, h d)) (dict_setitem k v m) =
   dict_setitem k (h v) (map (\<lambda>(f, d). (f, h d)) m)"
  by (induction m) auto

lemma set_dict_setitem_subset: "set (dict_setitem k v d) \<subseteq> insert (k, v) (set d)"
  by (induction d) (auto split: if_splits)

lemma filter_dict_setitem_only:
  "\<forall>e \<in> set m. \<not> P e \<Longrightarrow> P (k, v) \<Longrightarrow> filter P (dict_setitem k v m) = [(k, v)]"
  by (induction m) auto

subsection \<open>The loop of save_objects\<close>

lemma as_instance_Raises: "as_instance mc c = Raises e \<Longrightarrow> e = TypeError"
  by (auto simp: as_instance_def split: candidate.splits option.splits)

lemma collect_well_shaped:
  "list_all (well_shaped mc) objs \<Longrightarrow>
   collect mc seen objs (ks, d) =
     Returns (ks @ map (key_of mc) (unseen mc seen objs),
              store_each mc (unseen mc seen objs) d)"
  by (induction objs arbitrary: ks d)
     (auto simp: well_shaped_def unseen_def instances_def store_each_def split: result.splits)

lemma collect_ill_shaped:
  "\<not> list_all (well_shaped mc) objs \<Longrightarrow> collect mc seen objs (ks, d) = Raises TypeError"
  by (induction objs arbitrary: ks d)
     (auto simp: well_shaped_def split: result.splits dest: as_instance_Raises)

lemma store_each_Nil [simp]: "store_each mc [] d = d"
  by (simp add: store_each_def)

lemma store_each_Cons [simp]:
  "store_each mc (x # xs) d = store_each mc xs (dict_setitem (key_of mc x) x d)"
  by (simp add: store_each_def)

lemma store_each_empty_iff: "store_each mc xs d = [] \<longleftrightarrow> xs = [] \<and> d = []"
proof (induction xs arbitrary: d)
  case Nil
  show ?case by simp
next
  case (Cons x xs)
  then show ?case by (simp add: dict_setitem_not_empty)
qed

lemma set_keys_store_each:
  "set (dict_keys (store_each mc xs d)) = set (dict_keys d) \<union> key_of mc ` set xs"
  by (induction xs arbitrary: d) (auto simp: set_dict_keys_setitem)

lemma distinct_keys_store_each:
  "distinct (dict_keys d) \<Longrightarrow> distinct (dict_keys (store_each mc xs d))"
  by (induction xs arbitrary: d) (auto simp: distinct_dict_keys_setitem)

lemma keys_store_each:
  "dict_keys (store_each mc xs d) =
   dict_keys d @ first_occurrences (filter (\<lambda>k. k \<notin> set (dict_keys d)) (map (key_of mc) xs))"
proof (induction xs arbitrary: d)
  case Nil
  show ?case by simp
next
  case (Cons x xs)
  let ?k = "key_of mc x"
  show ?case
  proof (cases "?k \<in> set (dict_keys d)")
    case True
    then show ?thesis by (simp add: Cons dict_keys_setitem)
  next
    case False
    have "filter (\<lambda>k. k \<notin> set (dict_keys d) \<and> k \<noteq> ?k) (map (key_of mc) xs)
          = filter (\<lambda>y. y \<noteq> ?k) (filter (\<lambda>k. k \<notin> set (dict_keys d)) (map (key_of mc) xs))"
      by (simp add: conj_commute)
    with False show ?thesis by (simp add: Cons dict_keys_setitem conj_commute)
  qed
qed

lemma map_of_store_each:
  "map_of (store_each mc xs d) k =
     (case filter (\<lambda>x. key_of mc x = k) xs of
        [] \<Rightarrow> map_of d k
      | y # ys \<Rightarrow> Some (last (y # ys)))"
proof (induction xs arbitrary: d)
  case Nil
  show ?case by simp
next
  case (Cons x xs)
  show ?case
    by (simp add: Cons map_of_dict_setitem split: list.splits)
qed

subsection \<open>The dataclass\<close>

lemma galaxy_fields_init:
  "RedShiftCheckPointObject_init (galaxy_fields k p) = Some (galaxy k p)"
  by (auto simp: RedShiftCheckPointObject_init_def galaxy_fields_def galaxy_def dict_keys_def)

lemma init_missing_fields: "RedShiftCheckPointObject_init [(''key'', PyStr k)] = None"
  by (auto simp: RedShiftCheckPointObject_init_def dict_keys_def)

lemma class_simps [simp]:
  "new RedShiftCheckPointObject_class = RedShiftCheckPointObject_init"
  "key_of RedShiftCheckPointObject_class = key"
  by (simp_all add: RedShiftCheckPointObject_class_def)

lemma key_galaxy [simp]: "key (galaxy k p) = k"
  by (simp add: galaxy_def)

lemma new_store_simps:
  "new_store = \<lparr>objs_in_disk = None, metadata_file = None, pkl_dir = [], obj_set = {},
                last_modified = 0, max_objects = 1000,
                metaclass = RedShiftCheckPointObject_class\<rparr>"
  by (simp add: new_store_def empty_store_def init_def save_objects_def)

subsection \<open>What a call of save_objects does\<close>

lemma save_objects_well_shaped:
  assumes "int (length objs) \<le> max_objects self"
    and "list_all (well_shaped (metaclass self)) objs"
  shows "save_objects now (Some objs) self =
     (Returns (),
      if unseen (metaclass self) (obj_set self) objs = [] then self
      else (update_objects_on_disk
              (map (key_of (metaclass self)) (unseen (metaclass self) (obj_set self) objs))
              (save_pkl (store_each (metaclass self)
                           (unseen (metaclass self) (obj_set self) objs) []) self))
           \<lparr>last_modified := now\<rparr>)"
  using assms
  by (simp add: save_objects_def collect_well_shaped store_each_empty_iff)

lemma save_objects_Returns_iff:
  "fst (save_objects now (Some objs) self) = Returns () \<longleftrightarrow>
     int (length objs) \<le> max_objects self \<and> list_all (well_shaped (metaclass self)) objs"
proof (cases "list_all (well_shaped (metaclass self)) objs")
  case True
  then show ?thesis
    by (simp add: save_objects_def collect_well_shaped)
next
  case False
  then show ?thesis
    by (simp add: save_objects_def collect_ill_shaped)
qed

lemma save_objects_None: "save_objects now None self = (Returns (), self)"
  by (simp add: save_objects_def)

text \<open>The fields of the store after a call that accepts the objects \<open>xs\<close>.\<close>

lemma written_fields:
  fixes self :: "('d, 'o) CheckPointer"
  defines "mc \<equiv> metaclass self"
  assumes "self' = (update_objects_on_disk (map (key_of mc) xs)
                      (save_pkl (store_each mc xs []) self))\<lparr>last_modified := now\<rparr>"
  shows "pkl_dir self' =
           dict_setitem (pkl_name (dict_keys (store_each mc xs []))) (store_each mc xs [])
             (pkl_dir self)"
    and "metadata_file self' =
           Some (dict_setitem (pkl_name (dict_keys (store_each mc xs [])))
                   (dict_keys (store_each mc xs [])) (return_all_objects_info self))"
    and "objs_in_disk self' =
           Some ((case objs_in_disk self of None \<Rightarrow> [] | Some t \<Rightarrow> t) @
                 str_join '','' (map (key_of mc) xs) @ '','')"
    and "obj_set self' = obj_set self \<union> key_of mc ` set xs"
    and "last_modified self' = now"
    and "max_objects self' = max_objects self"
    and "metaclass self' = metaclass self"
  using assms
  by (simp_all add: update_objects_on_disk_def save_pkl_def Let_def pkl_name_def
        return_all_objects_info_def split: option.splits)

lemma keys_store_each_Nil:
  "dict_keys (store_each mc xs []) = first_occurrences (map (key_of mc) xs)"
  using keys_store_each [of mc xs "[]"] by (simp add: dict_keys_def)

lemma set_first_occurrences [simp]: "set (first_occurrences xs) = set xs"
proof (induction xs rule: first_occurrences.induct)
  case 1
  show ?case by simp
next
  case (2 x xs)
  then show ?case by auto
qed

lemma distinct_first_occurrences [simp]: "distinct (first_occurrences xs)"
proof (induction xs rule: first_occurrences.induct)
  case 1
  show ?case by simp
next
  case (2 x xs)
  then show ?case by simp
qed

subsection \<open>The invariant\<close>

lemma index_keys_setitem:
  "set (concat (map snd (dict_setitem f ks m))) \<subseteq> set ks \<union> set (concat (map snd m))"
  using set_dict_setitem_subset [of f ks m] by fastforce

lemma store_inv_written:
  fixes self :: "('d, 'o) CheckPointer"
  assumes inv: "store_inv self"
    and self': "self' = (update_objects_on_disk (map (key_of (metaclass self)) xs)
                      (save_pkl (store_each (metaclass self) xs []) self))\<lparr>last_modified := now\<rparr>"
  shows "store_inv self'"
proof -
  let ?mc = "metaclass self"
  let ?d = "store_each ?mc xs []"
  let ?f = "pkl_name (dict_keys ?d)"
  note w = written_fields [OF self']
  have info: "return_all_objects_info self' =
              dict_setitem ?f (dict_keys ?d) (return_all_objects_info self)"
    by (simp add: return_all_objects_info_def w(2))
  have a: "map (\<lambda>(f, d). (f, dict_keys d)) (pkl_dir self') = return_all_objects_info self'"
    using inv by (simp add: info w(1) map_dict_setitem store_inv_def)
  have b: "distinct (dict_keys (pkl_dir self'))"
    using inv by (simp add: w(1) distinct_dict_keys_setitem store_inv_def)
  have "set (index_keys self') \<subseteq> set (dict_keys ?d) \<union> set (index_keys self)"
    unfolding index_keys_def info by (rule index_keys_setitem)
  also have "\<dots> \<subseteq> obj_set self'"
  proof -
    have "set (dict_keys ?d) = key_of ?mc ` set xs"
      using set_keys_store_each [of ?mc xs "[]"] by (simp add: dict_keys_def)
    moreover have "set (index_keys self) \<subseteq> obj_set self"
      using inv by (simp add: store_inv_def)
    ultimately show ?thesis by (auto simp: w(4))
  qed
  finally have c: "set (index_keys self') \<subseteq> obj_set self'" .
  from a b c show ?thesis by (simp add: store_inv_def)
qed

lemma save_objects_inv:
  assumes "store_inv self" and "save_objects now meta_objects self = (r, self')"
  shows "store_inv self'"
proof (cases meta_objects)
  case None
  with assms show ?thesis by (simp add: save_objects_None)
next
  case (Some objs)
  show ?thesis
  proof (cases "int (length objs) \<le> max_objects self
                \<and> list_all (well_shaped (metaclass self)) objs")
    case True
    then have "save_objects now (Some objs) self =
      (Returns (),
       if unseen (metaclass self) (obj_set self) objs = [] then self
       else (update_objects_on_disk
               (map (key_of (metaclass self)) (unseen (metaclass self) (obj_set self) objs))
               (save_pkl (store_each (metaclass self)
                            (unseen (metaclass self) (obj_set self) objs) []) self))
            \<lparr>last_modified := now\<rparr>)"
      by (simp add: save_objects_well_shaped)
    with assms Some show ?thesis
      by (auto split: if_splits intro: store_inv_written)
  next
    case False
    then have "self' = self"
      using assms(2) Some
      by (auto simp: save_objects_def collect_ill_shaped split: if_splits)
    with assms(1) show ?thesis by simp
  qed
qed

lemma save_all_inv:
  "store_inv self \<Longrightarrow> save_all calls self = Some self' \<Longrightarrow> store_inv self'"
proof (induction calls arbitrary: self)
  case Nil
  then show ?case by simp
next
  case (Cons call calls)
  obtain now b where call: "call = (now, b)" by (cases call)
  obtain r s where step: "save_objects now b self = (r, s)" by (cases "save_objects now b self")
  from Cons.prems(2) call step obtain u where "r = Returns u" and rest: "save_all calls s = Some self'"
    by (cases r) auto
  from Cons.prems(1) step have "store_inv s" by (rule save_objects_inv)
  then show ?case using rest by (rule Cons.IH)
qed

lemma empty_store_fields:
  "empty_store t0 mc maxo =
     \<lparr>objs_in_disk = None, metadata_file = None, pkl_dir = [], obj_set = {},
      last_modified = t0, max_objects = maxo, metaclass = mc\<rparr>"
  by (simp add: empty_store_def init_def save_objects_def)

lemma empty_store_inv: "store_inv (empty_store t0 mc maxo)"
  by (simp add: empty_store_fields store_inv_def return_all_objects_info_def index_keys_def
        dict_keys_def)

lemma reachable_inv:
  "save_all calls (empty_store t0 mc maxo) = Some self \<Longrightarrow> store_inv self"
  using empty_store_inv by (rule save_all_inv)

subsection \<open>Looking a key up\<close>

lemma find_tgt_file_last:
  "find_tgt_file k m acc =
     (case entries_with k m of [] \<Rightarrow> acc | e # es \<Rightarrow> Some (fst (last (e # es))))"
proof (induction m arbitrary: acc)
  case Nil
  show ?case by (simp add: entries_with_def)
next
  case (Cons p m)
  obtain f ks where p: "p = (f, ks)" by (cases p)
  show ?case
    by (simp add: p Cons entries_with_def split: list.splits)
qed

lemma entries_with_subset: "set (entries_with k m) \<subseteq> set m"
  by (auto simp: entries_with_def)

lemma entries_with_lists: "(f, ks) \<in> set (entries_with k m) \<Longrightarrow> k \<in> set ks"
  by (auto simp: entries_with_def)

lemma map_of_keys: "k \<in> set (dict_keys d) \<Longrightarrow> \<exists>x. map_of d k = Some x"
  by (cases "map_of d k") (auto simp: dict_keys_def map_of_eq_None_iff)

subsection \<open>Evaluating calls on the stores of the examples\<close>

lemmas store_eval =
  save_objects_def as_instance_def save_pkl_def update_objects_on_disk_def Let_def
  dict_keys_def pkl_name_def get_specific_object_def

lemma first_save_fields:
  "first_save =
     \<lparr>objs_in_disk = Some ''0,'',
      metadata_file = Some [(pkl_name [''0''], [''0''])],
      pkl_dir = [(pkl_name [''0''], [(''0'', galaxy ''0'' 1)])],
      obj_set = {''0''}, last_modified = 1, max_objects = 1000,
      metaclass = RedShiftCheckPointObject_class\<rparr>"
  by (simp add: first_save_def new_store_simps store_eval)

lemma first_save_returns:
  "save_objects 1 (Some [Instance (galaxy ''0'' 1)]) new_store = (Returns (), first_save)"
  by (simp add: first_save_def new_store_simps store_eval)

subsection \<open>The attributes a call leaves alone\<close>

lemma save_objects_metaclass:
  "save_objects now meta_objects self = (r, self') \<Longrightarrow>
   metaclass self' = metaclass self \<and> max_objects self' = max_objects self"
  by (auto simp: save_objects_def save_pkl_def update_objects_on_disk_def Let_def
        split: option.splits if_splits result.splits)

lemma save_all_metaclass:
  "save_all calls self = Some self' \<Longrightarrow>
   metaclass self' = metaclass self \<and> max_objects self' = max_objects self"
proof (induction calls arbitrary: self)
  case Nil
  then show ?case by simp
next
  case (Cons call calls)
  obtain now b where call: "call = (now, b)" by (cases call)
  obtain r s where step: "save_objects now b self = (r, s)" by (cases "save_objects now b self")
  from Cons.prems call step have rest: "save_all calls s = Some self'"
    by (cases r) auto
  from Cons.IH [OF rest] save_objects_metaclass [OF step] show ?case by simp
qed

lemma instances_member:
  "c \<in> set objs \<Longrightarrow> as_instance mc c = Returns x \<Longrightarrow> x \<in> set (instances mc objs)"
  by (force simp: instances_def)

lemma filter_key_unseen:
  "k \<notin> seen \<Longrightarrow>
   filter (\<lambda>x. key_of mc x = k) (unseen mc seen objs) =
   filter (\<lambda>x. key_of mc x = k) (instances mc objs)"
  by (auto simp: unseen_def intro: filter_cong)

text \<open>
  A call that returns and has accepted an object: the files and attributes it leaves.
\<close>

lemma save_objects_accepting:
  fixes self :: "('d, 'o) CheckPointer"
  assumes call: "save_objects now (Some objs) self = (Returns (), self')"
    and acc: "unseen (metaclass self) (obj_set self) objs \<noteq> []"
  shows "self' = (update_objects_on_disk (keys_to_save self objs)
                    (save_pkl (store_each (metaclass self)
                       (unseen (metaclass self) (obj_set self) objs) []) self))
                 \<lparr>last_modified := now\<rparr>"
proof -
  from call have "fst (save_objects now (Some objs) self) = Returns ()" by simp
  then have "int (length objs) \<le> max_objects self"
    and "list_all (well_shaped (metaclass self)) objs"
    by (simp_all add: save_objects_Returns_iff)
  from save_objects_well_shaped [OF this, of now] call acc show ?thesis
    by (simp add: keys_to_save_def)
qed

subsection \<open>Counting keys\<close>

lemma count_list_map_key:
  "count_list (map f xs) k = length (filter (\<lambda>x. f x = k) xs)"
  by (induction xs) simp_all

lemma count_list_distinct:
  "distinct xs \<Longrightarrow> k \<in> set xs \<Longrightarrow> count_list xs k = 1"
  by (induction xs) (auto simp: count_list_0_iff)

subsection \<open>Two batches with one file name\<close>

lemma pkl_name_joined: "concat ks = concat ks' \<Longrightarrow> pkl_name ks = pkl_name ks'"
  by (simp add: pkl_name_def get_hash_concat)

lemma ab_saved_fields:
  "ab_saved =
     \<lparr>objs_in_disk = Some ''ab,'',
      metadata_file = Some [(pkl_name [''ab''], [''ab''])],
      pkl_dir = [(pkl_name [''ab''], [(''ab'', galaxy ''ab'' 11)])],
      obj_set = {''ab''}, last_modified = 10, max_objects = 1000,
      metaclass = RedShiftCheckPointObject_class\<rparr>"
  by (simp add: ab_saved_def new_store_simps store_eval)

lemma collided_fields:
  "collided =
     \<lparr>objs_in_disk = Some ''ab,a,b,'',
      metadata_file = Some [(pkl_name [''ab''], [''a'', ''b''])],
      pkl_dir = [(pkl_name [''ab''], [(''a'', galaxy ''a'' 12), (''b'', galaxy ''b'' 13)])],
      obj_set = {''ab'', ''a'', ''b''}, last_modified = 20, max_objects = 1000,
      metaclass = RedShiftCheckPointObject_class\<rparr>"
  by (auto simp add: collided_def ab_saved_fields store_eval get_hash_concat)

lemma ab_saved_returns:
  "save_objects 10 (Some [Instance (galaxy ''ab'' 11)]) new_store = (Returns (), ab_saved)"
  by (simp add: ab_saved_def new_store_simps store_eval)

lemma collided_returns:
  "save_objects 20 (Some [Instance (galaxy ''a'' 12), Instance (galaxy ''b'' 13)]) ab_saved
   = (Returns (), collided)"
  by (simp add: collided_def prod_eq_iff save_objects_Returns_iff ab_saved_fields
        well_shaped_def as_instance_def)

lemma resubmit_returns:
  "save_objects 30 (Some [Instance (galaxy ''ab'' 14)]) collided = (Returns (), collided)"
  by (simp add: collided_fields store_eval)

subsection \<open>Reading the ledger file\<close>

lemma str_split_not_empty: "str_split c s \<noteq> []"
  by (induction s) (auto split: list.splits)

lemma str_split_word:
  "c \<notin> set w \<Longrightarrow> str_split c (w @ c # rest) = w # str_split c rest"
  by (induction w) auto

lemma str_split_join:
  "\<forall>k \<in> set ks. c \<notin> set k \<Longrightarrow>
   str_split c (str_join [c] ks @ c # rest)
     = (if ks = [] then [[]] else ks) @ str_split c rest"
proof (induction ks rule: induct_list012)
  case 1
  show ?case by simp
next
  case (2 x)
  then show ?case by (simp add: str_split_word)
next
  case (3 x y zs)
  then have "c \<notin> set x" by simp
  then have "str_split c (x @ c # (str_join [c] (y # zs) @ c # rest))
             = x # str_split c (str_join [c] (y # zs) @ c # rest)"
    by (rule str_split_word)
  with 3 show ?case by simp
qed

lemma str_split_empty: "str_split c [] = [[]]"
  by simp

text \<open>
  What \<open>__init__\<close> reads from a ledger file that \<open>_update_objects_on_disk\<close> has written
  with keys free of commas: the keys, and the empty string after the last comma.
\<close>

lemma split_ledger:
  "\<forall>ks \<in> set kss. \<forall>k \<in> set ks. CHR '','' \<notin> set k \<Longrightarrow>
   set (str_split CHR '','' (ledger_of kss)) = \<Union> (set ` set kss) \<union> {[]}"
proof (induction kss)
  case Nil
  show ?case by (simp add: ledger_of_def)
next
  case (Cons ks kss)
  have "ledger_of (ks # kss) = str_join '','' ks @ CHR '','' # ledger_of kss"
    by (simp add: ledger_of_def)
  moreover have "str_split CHR '','' (str_join '','' ks @ CHR '','' # ledger_of kss)
        = (if ks = [] then [[]] else ks) @ str_split CHR '','' (ledger_of kss)"
    using Cons.prems by (intro str_split_join) simp
  ultimately show ?case
    using Cons by auto
qed

lemma first_save_ledger: "objs_in_disk first_save = Some (ledger_of [[''0'']])"
  by (simp add: first_save_fields ledger_of_def)

lemma reloaded_fields:
  "reloaded = first_save\<lparr>obj_set := {''0'', ''''}, last_modified := 3\<rparr>"
  by (simp add: reloaded_def init_def save_objects_None first_save_fields)

subsection \<open>Submitting seen keys, and the copies of a key\<close>

lemma save_objects_seen_only:
  assumes "int (length objs) \<le> max_objects self"
    and "list_all (well_shaped (metaclass self)) objs"
    and "\<forall>x \<in> set (instances (metaclass self) objs). key_of (metaclass self) x \<in> obj_set self"
  shows "save_objects now (Some objs) self = (Returns (), self)"
proof -
  from assms(3) have "unseen (metaclass self) (obj_set self) objs = []"
    by (simp add: unseen_def filter_empty_conv)
  with save_objects_well_shaped [OF assms(1,2), of now] show ?thesis by simp
qed

lemma dict_setitem_fresh: "k \<notin> set (dict_keys d) \<Longrightarrow> dict_setitem k v d = d @ [(k, v)]"
  by (induction d) (auto simp: dict_keys_def)

lemma concat_map_dict_setitem:
  "\<forall>e \<in> set m. g e = [] \<Longrightarrow> concat (map g (dict_setitem f v m)) = g (f, v)"
  by (induction m) auto

lemma copies_in_dict:
  "distinct (dict_keys d) \<Longrightarrow> map_of d k = Some x \<Longrightarrow>
   map snd (filter (\<lambda>(k', y). k' = k) d) = [x]"
proof (induction d)
  case Nil
  then show ?case by simp
next
  case (Cons p d)
  obtain k' y where p: "p = (k', y)" by (cases p)
  show ?case
  proof (cases "k' = k")
    case True
    with Cons.prems p have "x = y" and "k \<notin> fst ` set d"
      by (auto simp: dict_keys_def)
    then have "filter (\<lambda>(k', y). k' = k) d = []"
      by (force simp: filter_empty_conv)
    with True p \<open>x = y\<close> show ?thesis by simp
  next
    case False
    with Cons p show ?thesis by (simp add: dict_keys_def)
  qed
qed

lemma no_copy_in_dict:
  "k \<notin> set (dict_keys d) \<Longrightarrow> map snd (filter (\<lambda>(k', y). k' = k) d) = []"
  by (force simp: dict_keys_def filter_empty_conv)

lemma pkl_keys_in_index:
  assumes "store_inv self" and "(f, d) \<in> set (pkl_dir self)"
  shows "set (dict_keys d) \<subseteq> obj_set self"
proof -
  from assms(2) have "(f, dict_keys d) \<in> set (map (\<lambda>(f, d). (f, dict_keys d)) (pkl_dir self))"
    by force
  with assms(1) have "(f, dict_keys d) \<in> set (return_all_objects_info self)"
    by (simp add: store_inv_def)
  then have "set (dict_keys d) \<subseteq> set (index_keys self)"
    by (force simp: index_keys_def)
  with assms(1) show ?thesis by (auto simp: store_inv_def)
qed

text \<open>
  Right after the call that accepts a key, one stored copy of the key exists: the last
  object of the batch that carries it.
\<close>

lemma stored_copies_after_save:
  assumes reach: "save_all calls (empty_store t0 mc maxo) = Some self"
    and call: "save_objects now (Some objs) self = (Returns (), self')"
    and new: "k \<notin> obj_set self"
    and acc: "occurrences k self objs \<noteq> []"
  shows "stored_copies k self' = [last (occurrences k self objs)]"
proof -
  let ?mc = "metaclass self"
  let ?xs = "unseen ?mc (obj_set self) objs"
  let ?d = "store_each ?mc ?xs []"
  have occ: "filter (\<lambda>y. key_of ?mc y = k) ?xs = occurrences k self objs"
    using new by (simp add: occurrences_def filter_key_unseen)
  with acc have "?xs \<noteq> []" by auto
  with call have self': "self' = (update_objects_on_disk (map (key_of ?mc) ?xs)
                    (save_pkl ?d self))\<lparr>last_modified := now\<rparr>"
    using save_objects_accepting [of now objs self self'] by (simp add: keys_to_save_def)
  note w = written_fields [OF self']
  have member: "map_of ?d k = Some (last (occurrences k self objs))"
    using acc by (simp add: map_of_store_each occ split: list.splits)
  have "distinct (dict_keys ?d)"
    by (simp add: keys_store_each_Nil)
  then have new_copy:
    "map snd (filter (\<lambda>(k', y). k' = k) ?d) = [last (occurrences k self objs)]"
    using member by (rule copies_in_dict)
  have inv: "store_inv self" using reach by (rule reachable_inv)
  have old: "\<forall>e \<in> set (pkl_dir self).
               (case e of (f, d) \<Rightarrow> map snd (filter (\<lambda>(k', y). k' = k) d)) = []"
  proof
    fix e assume e: "e \<in> set (pkl_dir self)"
    obtain f d where fd: "e = (f, d)" by (cases e)
    with e inv have "set (dict_keys d) \<subseteq> obj_set self"
      using pkl_keys_in_index [of self f d] by simp
    with new have "k \<notin> set (dict_keys d)" by auto
    then show "(case e of (f, d) \<Rightarrow> map snd (filter (\<lambda>(k', y). k' = k) d)) = []"
      by (simp add: fd no_copy_in_dict)
  qed
  show ?thesis
    unfolding stored_copies_def w(1)
    using concat_map_dict_setitem [OF old] new_copy by simp
qed

text \<open>
  A call that submits a key right after the call that accepted it, and no unseen key,
  changes nothing, and the one stored copy is the one of the accepting call.
\<close>

lemma resubmission_after_save:
  assumes reach: "save_all calls (empty_store t0 mc maxo) = Some self"
    and call: "save_objects now (Some objs) self = (Returns (), self')"
    and new: "k \<notin> obj_set self"
    and acc: "occurrences k self objs \<noteq> []"
    and again: "occurrences k self' objs' \<noteq> []"
    and small: "int (length objs') \<le> max_objects self'"
    and shaped: "list_all (well_shaped (metaclass self')) objs'"
    and seen: "\<forall>x \<in> set (instances (metaclass self') objs'). key_of (metaclass self') x \<in> obj_set self'"
  shows "save_objects now' (Some objs') self' = (Returns (), self')"
    and "stored_copies k (snd (save_objects now' (Some objs') self')) = [last (occurrences k self objs)]"
proof -
  show "save_objects now' (Some objs') self' = (Returns (), self')"
    using small shaped seen by (rule save_objects_seen_only)
  then show "stored_copies k (snd (save_objects now' (Some objs') self'))
             = [last (occurrences k self objs)]"
    using stored_copies_after_save [OF reach call new acc] by simp
qed

text \<open>
  A call whose file name is not in the index document keeps the index and the ledger
  set equal. The names of two calls can be equal: see \<open>pkl_name_joined\<close>.
\<close>

lemma fresh_name_keeps_index_and_ledger:
  assumes call: "save_objects now (Some objs) self = (Returns (), self')"
    and eq: "set (index_keys self) = obj_set self"
    and fresh: "pkl_name (first_occurrences (keys_to_save self objs))
                \<notin> set (dict_keys (return_all_objects_info self))"
  shows "set (index_keys self') = obj_set self'"
proof (cases "unseen (metaclass self) (obj_set self) objs = []")
  case True
  from call have "fst (save_objects now (Some objs) self) = Returns ()" by simp
  then have "int (length objs) \<le> max_objects self"
    and "list_all (well_shaped (metaclass self)) objs"
    by (simp_all add: save_objects_Returns_iff)
  from save_objects_well_shaped [OF this, of now] call True have "self' = self" by simp
  with eq show ?thesis by simp
next
  case False
  let ?mc = "metaclass self"
  let ?xs = "unseen ?mc (obj_set self) objs"
  let ?d = "store_each ?mc ?xs []"
  from call False have self': "self' = (update_objects_on_disk (map (key_of ?mc) ?xs)
                    (save_pkl ?d self))\<lparr>last_modified := now\<rparr>"
    using save_objects_accepting [of now objs self self'] by (simp add: keys_to_save_def)
  note w = written_fields [OF self']
  have keys: "dict_keys ?d = first_occurrences (keys_to_save self objs)"
    by (simp add: keys_store_each_Nil keys_to_save_def)
  have "return_all_objects_info self' =
          return_all_objects_info self @ [(pkl_name (dict_keys ?d), dict_keys ?d)]"
    using fresh by (simp add: return_all_objects_info_def w(2) keys dict_setitem_fresh)
  then have "set (index_keys self') = set (index_keys self) \<union> set (dict_keys ?d)"
    by (simp add: index_keys_def)
  also have "set (dict_keys ?d) = key_of ?mc ` set ?xs"
    by (simp add: keys keys_to_save_def)
  finally show ?thesis by (simp add: eq w(4))
qed

subsection \<open>The ledger file of a store built from an empty directory\<close>

lemma ledger_of_snoc: "ledger_of (kss @ [ks]) = ledger_of kss @ str_join '','' ks @ '',''"
  by (simp add: ledger_of_def)

lemma ledger_step:
  assumes "\<exists>kss. obj_set self = \<Union> (set ` set kss)
                \<and> objs_in_disk self = (if kss = [] then None else Some (ledger_of kss))"
    and "save_objects now meta_objects self = (Returns (), self')"
  shows "\<exists>kss. obj_set self' = \<Union> (set ` set kss)
              \<and> objs_in_disk self' = (if kss = [] then None else Some (ledger_of kss))"
proof (cases meta_objects)
  case None
  with assms show ?thesis by (simp add: save_objects_None)
next
  case (Some objs)
  show ?thesis
  proof (cases "unseen (metaclass self) (obj_set self) objs = []")
    case True
    from assms(2) Some have "fst (save_objects now (Some objs) self) = Returns ()" by simp
    then have "int (length objs) \<le> max_objects self"
      and "list_all (well_shaped (metaclass self)) objs"
      by (simp_all add: save_objects_Returns_iff)
    from save_objects_well_shaped [OF this, of now] assms(2) Some True have "self' = self"
      by simp
    with assms(1) show ?thesis by simp
  next
    case False
    let ?mc = "metaclass self"
    let ?xs = "unseen ?mc (obj_set self) objs"
    from assms(2) Some False
    have self': "self' = (update_objects_on_disk (map (key_of ?mc) ?xs)
                    (save_pkl (store_each ?mc ?xs []) self))\<lparr>last_modified := now\<rparr>"
      using save_objects_accepting [of now objs self self'] by (simp add: keys_to_save_def)
    note w = written_fields [OF self']
    from assms(1) obtain kss where kss: "obj_set self = \<Union> (set ` set kss)"
      "objs_in_disk self = (if kss = [] then None else Some (ledger_of kss))"
      by blast
    have "obj_set self' = \<Union> (set ` set (kss @ [map (key_of ?mc) ?xs]))"
      by (simp add: w(4) kss(1) Un_commute)
    moreover have "objs_in_disk self' = Some (ledger_of (kss @ [map (key_of ?mc) ?xs]))"
      by (simp add: w(3) kss(2) ledger_of_snoc) (simp add: ledger_of_def)
    ultimately show ?thesis
      by (intro exI [of _ "kss @ [map (key_of ?mc) ?xs]"]) simp
  qed
qed

lemma reachable_ledger:
  "save_all calls (empty_store t0 mc maxo) = Some self \<Longrightarrow>
   \<exists>kss. obj_set self = \<Union> (set ` set kss)
       \<and> objs_in_disk self = (if kss = [] then None else Some (ledger_of kss))"
proof -
  have gen: "\<And>s. save_all calls s = Some self \<Longrightarrow>
     \<exists>kss. obj_set s = \<Union> (set ` set kss)
         \<and> objs_in_disk s = (if kss = [] then None else Some (ledger_of kss)) \<Longrightarrow>
     \<exists>kss. obj_set self = \<Union> (set ` set kss)
         \<and> objs_in_disk self = (if kss = [] then None else Some (ledger_of kss))"
  proof (induction calls)
    case Nil
    then show ?case by simp
  next
    case (Cons call calls)
    obtain now b where c: "call = (now, b)" by (cases call)
    obtain r s' where step: "save_objects now b s = (r, s')" by (cases "save_objects now b s")
    from Cons.prems(1) c step have r: "r = Returns ()" and rest: "save_all calls s' = Some self"
      by (cases r; simp)+
    from Cons.prems(2) step r have "\<exists>kss. obj_set s' = \<Union> (set ` set kss)
         \<and> objs_in_disk s' = (if kss = [] then None else Some (ledger_of kss))"
      by (intro ledger_step [of s now b s']) simp_all
    with rest show ?case by (rule Cons.IH)
  qed
  assume "save_all calls (empty_store t0 mc maxo) = Some self"
  then show ?thesis
    by (rule gen) (intro exI [of _ "[]"], simp add: empty_store_fields)
qed

text \<open>
  Constructed on the directory of such a store whose keys have no comma, a second
  instance reads the keys of the first and the empty string.
\<close>

lemma reload_reads:
  assumes reach: "save_all calls (empty_store t0 mc maxo) = Some self"
    and ledger: "objs_in_disk self = Some content"
    and plain: "\<forall>k \<in> obj_set self. CHR '','' \<notin> set k"
  shows "obj_set (snd (init (objs_in_disk self) (metadata_file self) (pkl_dir self)
                         mtime t1 t2 mc' False None maxo'))
         = obj_set self \<union> {[]}"
proof -
  from reachable_ledger [OF reach] obtain kss where kss: "obj_set self = \<Union> (set ` set kss)"
    "objs_in_disk self = (if kss = [] then None else Some (ledger_of kss))"
    by blast
  with ledger have content: "content = ledger_of kss" by (auto split: if_splits)
  from plain kss(1) have "\<forall>ks \<in> set kss. \<forall>k \<in> set ks. CHR '','' \<notin> set k" by auto
  then have "set (str_split CHR '','' (ledger_of kss)) = \<Union> (set ` set kss) \<union> {[]}"
    by (rule split_ledger)
  then show ?thesis
    by (simp add: init_def save_objects_None ledger content kss(1))
qed

subsection \<open>The invariant and the index entries\<close>

lemma store_inv_blobs_match_index:
  assumes "store_inv self"
  shows "blobs_match_index self"
proof -
  have "case map_of (pkl_dir self) f of None \<Rightarrow> False | Some d \<Rightarrow> dict_keys d = ks"
    if "(f, ks) \<in> set (return_all_objects_info self)" for f ks
  proof -
    from that assms have "(f, ks) \<in> set (map (\<lambda>(f, d). (f, dict_keys d)) (pkl_dir self))"
      by (simp add: store_inv_def)
    then obtain d where d: "(f, d) \<in> set (pkl_dir self)" "ks = dict_keys d"
      by auto
    from assms have "distinct (map fst (pkl_dir self))"
      by (simp add: store_inv_def dict_keys_def)
    with d(1) have "map_of (pkl_dir self) f = Some d" by simp
    with d(2) show ?thesis by simp
  qed
  then show ?thesis
    by (auto simp: blobs_match_index_def list_all_iff)
qed

lemma reachable_blobs_match_index:
  "save_all calls (empty_store t0 mc maxo) = Some self \<Longrightarrow> blobs_match_index self"
  by (rule store_inv_blobs_match_index) (rule reachable_inv)

subsection \<open>The copies of a key after later calls\<close>

lemma concat_map_at_most_one:
  "distinct (map fst m) \<Longrightarrow> \<forall>e \<in> set m. g e \<noteq> [] \<longrightarrow> e = e1 \<Longrightarrow>
   concat (map g m) = [] \<or> concat (map g m) = g e1"
proof (induction m)
  case Nil
  show ?case by simp
next
  case (Cons e m)
  show ?case
  proof (cases "g e = []")
    case True
    with Cons show ?thesis by simp
  next
    case False
    with Cons.prems(2) have e: "e = e1" by simp
    have "g e' = []" if "e' \<in> set m" for e'
    proof (rule ccontr)
      assume "g e' \<noteq> []"
      with that Cons.prems(2) have "e' = e1" by simp
      with e that Cons.prems(1) show False by force
    qed
    then have "concat (map g m) = []" by simp
    with e show ?thesis by simp
  qed
qed

text \<open>
  While the key \<open>k\<close> is in \<open>obj_set\<close>, a call puts \<open>k\<close> in no pickle file: every file
  that holds \<open>k\<close> afterwards held it before, under the same name.
\<close>

lemma save_objects_no_new_copy:
  assumes call: "save_objects now meta_objects self = (r, self')"
    and seen: "k \<in> obj_set self"
    and entry: "(f, d) \<in> set (pkl_dir self')" "k \<in> set (dict_keys d)"
  shows "(f, d) \<in> set (pkl_dir self)"
proof (cases meta_objects)
  case None
  with call entry show ?thesis by (simp add: save_objects_None)
next
  case (Some objs)
  let ?mc = "metaclass self"
  let ?xs = "unseen ?mc (obj_set self) objs"
  let ?d = "store_each ?mc ?xs []"
  show ?thesis
  proof (cases "int (length objs) \<le> max_objects self
                \<and> list_all (well_shaped ?mc) objs \<and> ?xs \<noteq> []")
    case True
    with save_objects_well_shaped [of objs self now] call Some
    have self': "self' = (update_objects_on_disk (map (key_of ?mc) ?xs)
                    (save_pkl ?d self))\<lparr>last_modified := now\<rparr>"
      by simp
    note w = written_fields [OF self']
    have "set (dict_keys ?d) = key_of ?mc ` set ?xs"
      by (simp add: keys_store_each_Nil)
    with seen have "k \<notin> set (dict_keys ?d)"
      by (auto simp: unseen_def)
    with entry(2) have "d \<noteq> ?d" by auto
    moreover from entry(1) have "(f, d) \<in> insert (pkl_name (dict_keys ?d), ?d) (set (pkl_dir self))"
      using set_dict_setitem_subset [of "pkl_name (dict_keys ?d)" ?d "pkl_dir self"]
      by (auto simp: w(1))
    ultimately show ?thesis by auto
  next
    case False
    have "self' = self"
    proof (cases "int (length objs) \<le> max_objects self \<and> list_all (well_shaped ?mc) objs")
      case True
      with False have "?xs = []" by simp
      with True save_objects_well_shaped [of objs self now] call Some show ?thesis by simp
    next
      case False
      with call Some show ?thesis
        by (auto simp: save_objects_def collect_ill_shaped split: if_splits)
    qed
    with entry(1) show ?thesis by simp
  qed
qed

lemma save_objects_obj_set_mono:
  assumes "save_objects now meta_objects self = (r, self')"
  shows "obj_set self \<subseteq> obj_set self'"
  using assms
  by (auto simp: save_objects_def save_pkl_def update_objects_on_disk_def Let_def
        split: option.splits if_splits result.splits)

lemma save_all_no_new_copy:
  assumes "save_all calls self = Some self'"
    and "k \<in> obj_set self"
    and "(f, d) \<in> set (pkl_dir self')" "k \<in> set (dict_keys d)"
  shows "(f, d) \<in> set (pkl_dir self)"
  using assms
proof (induction calls arbitrary: self)
  case Nil
  then show ?case by simp
next
  case (Cons call calls)
  obtain now b where c: "call = (now, b)" by (cases call)
  obtain r s where step: "save_objects now b self = (r, s)" by (cases "save_objects now b self")
  from Cons.prems(1) c step have rest: "save_all calls s = Some self'"
    by (cases r) auto
  from step Cons.prems(2) have "k \<in> obj_set s"
    using save_objects_obj_set_mono [OF step] by auto
  have "(f, d) \<in> set (pkl_dir s)"
    using rest \<open>k \<in> obj_set s\<close> Cons.prems(3,4) by (rule Cons.IH)
  with step Cons.prems(2) show ?case
    using Cons.prems(4) by (rule save_objects_no_new_copy)
qed

text \<open>
  However many calls follow the one that accepted a key, the store never holds two
  copies of the key nor another object under it: it holds the object of the accepting
  call, or, when the file of that call has been written again, none.
\<close>

lemma copies_after_later_calls:
  assumes reach: "save_all calls (empty_store t0 mc maxo) = Some self"
    and call: "save_objects now (Some objs) self = (Returns (), self')"
    and new: "k \<notin> obj_set self"
    and acc: "occurrences k self objs \<noteq> []"
    and later: "save_all calls' self' = Some self''"
  shows "stored_copies k self'' = [last (occurrences k self objs)] \<or> stored_copies k self'' = []"
proof -
  let ?mc = "metaclass self"
  let ?xs = "unseen ?mc (obj_set self) objs"
  let ?d = "store_each ?mc ?xs []"
  let ?e = "(pkl_name (dict_keys ?d), ?d)"
  let ?g = "\<lambda>(f, d). map snd (filter (\<lambda>(k', y). k' = k) d)"
  have occ: "filter (\<lambda>y. key_of ?mc y = k) ?xs = occurrences k self objs"
    using new by (simp add: occurrences_def filter_key_unseen)
  with acc have ne: "?xs \<noteq> []" by auto
  with call have self': "self' = (update_objects_on_disk (map (key_of ?mc) ?xs)
                    (save_pkl ?d self))\<lparr>last_modified := now\<rparr>"
    using save_objects_accepting [of now objs self self'] by (simp add: keys_to_save_def)
  note w = written_fields [OF self']
  from acc occ have "filter (\<lambda>y. key_of ?mc y = k) ?xs \<noteq> []" by simp
  then obtain x where "x \<in> set ?xs" "key_of ?mc x = k"
    by (auto simp: filter_empty_conv)
  then have "k \<in> key_of ?mc ` set ?xs" by auto
  then have seen: "k \<in> obj_set self'" by (simp add: w(4))
  have inv: "store_inv self" using reach by (rule reachable_inv)
  then have inv': "store_inv self'" using call by (rule save_objects_inv)
  then have "store_inv self''" using later by (rule save_all_inv)
  then have dist: "distinct (map fst (pkl_dir self''))"
    by (simp add: store_inv_def dict_keys_def)
  have only: "\<forall>e \<in> set (pkl_dir self''). ?g e \<noteq> [] \<longrightarrow> e = ?e"
  proof (intro ballI impI)
    fix e assume e: "e \<in> set (pkl_dir self'')" and g: "?g e \<noteq> []"
    obtain f d where fd: "e = (f, d)" by (cases e)
    from g fd have k: "k \<in> set (dict_keys d)"
      using no_copy_in_dict [of k d] by auto
    from e fd have "(f, d) \<in> set (pkl_dir self'')" by simp
    with later seen have "(f, d) \<in> set (pkl_dir self')"
      using k by (rule save_all_no_new_copy)
    then have "(f, d) \<in> insert ?e (set (pkl_dir self))"
      using set_dict_setitem_subset [of "pkl_name (dict_keys ?d)" ?d "pkl_dir self"]
      by (auto simp: w(1))
    moreover have "(f, d) \<notin> set (pkl_dir self)"
    proof
      assume "(f, d) \<in> set (pkl_dir self)"
      with inv have "set (dict_keys d) \<subseteq> obj_set self" by (rule pkl_keys_in_index)
      with k new show False by auto
    qed
    ultimately show "e = ?e" by (simp add: fd)
  qed
  have member: "map_of ?d k = Some (last (occurrences k self objs))"
    using acc by (simp add: map_of_store_each occ split: list.splits)
  have "distinct (dict_keys ?d)" by (simp add: keys_store_each_Nil)
  then have "?g ?e = [last (occurrences k self objs)]"
    using member copies_in_dict [of ?d k] by simp
  with concat_map_at_most_one [OF dist only] show ?thesis
    by (auto simp: stored_copies_def)
qed

subsection \<open>Test vectors of SHA-1\<close>

lemma replicate_numeral: "replicate (numeral n) x = x # replicate (pred_numeral n) x"
  by (simp add: numeral_eq_Suc)

lemma schedule_numeral:
  "schedule (numeral n) w =
     schedule (pred_numeral n)
       (w @ [rotl 1 (w ! (length w - 3) XOR w ! (length w - 8) XOR w ! (length w - 14)
                     XOR w ! (length w - 16))])"
proof -
  have "numeral n = Suc (pred_numeral n)" by (rule numeral_eq_Suc)
  then show ?thesis by (simp only: schedule.simps Let_def)
qed

lemma schedule_add: "schedule (m + n) w = schedule n (schedule m w)"
  by (induction m arbitrary: w) (simp_all add: Let_def)

lemma schedule_one:
  "schedule (Suc 0) w =
     w @ [rotl 1 (w ! (length w - 3) XOR w ! (length w - 8) XOR w ! (length w - 14)
                  XOR w ! (length w - 16))]"
  by (simp add: Let_def)

lemma chunks_Nil: "chunks n [] = []"
  by simp

lemma chunks_numeral:
  "chunks (numeral n) (x # xs) =
     take (numeral n) (x # xs) # chunks (numeral n) (drop (numeral n) (x # xs))"
  by simp

lemma upt8: "[0..<8] = [0, 1, 2, 3, 4, 5, 6, 7]"
  by code_simp

lemma upt80: "[0..<80] = [0, 1, 2, 3, 4, 5, 6, 7, 8, 9, 10, 11, 12, 13, 14, 15, 16, 17, 18, 19,
  20, 21, 22, 23, 24, 25, 26, 27, 28, 29, 30, 31, 32, 33, 34, 35, 36, 37, 38, 39,
  40, 41, 42, 43, 44, 45, 46, 47, 48, 49, 50, 51, 52, 53, 54, 55, 56, 57, 58, 59,
  60, 61, 62, 63, 64, 65, 66, 67, 68, 69, 70, 71, 72, 73, 74, 75, 76, 77, 78, 79]"
  by code_simp

lemma hex_digit_simps:
  "hex_digit 0 = CHR ''0''" "hex_digit 1 = CHR ''1''" "hex_digit 2 = CHR ''2''" "hex_digit 3 = CHR ''3''"
  "hex_digit 4 = CHR ''4''" "hex_digit 5 = CHR ''5''" "hex_digit 6 = CHR ''6''" "hex_digit 7 = CHR ''7''"
  "hex_digit 8 = CHR ''8''" "hex_digit 9 = CHR ''9''" "hex_digit 10 = CHR ''a''" "hex_digit 11 = CHR ''b''"
  "hex_digit 12 = CHR ''c''" "hex_digit 13 = CHR ''d''" "hex_digit 14 = CHR ''e''" "hex_digit 15 = CHR ''f''"
  "hex_digit (Suc 0) = CHR ''1''"
  by (simp_all add: hex_digit_def)

lemma sha1_56789_bytes: "encode_utf8 ''56789'' = [0x35, 0x36, 0x37, 0x38, 0x39]"
  by (simp add: encode_utf8_def utf8_char_def)

lemma sha1_56789_pad:
  "sha1_pad [0x35, 0x36, 0x37, 0x38, 0x39] =
    [0x35, 0x36, 0x37, 0x38, 0x39, 0x80, 0, 0, 0, 0, 0, 0, 0, 0, 0, 0, 0, 0, 0, 0, 0, 0,
     0, 0, 0, 0, 0, 0, 0, 0, 0, 0, 0, 0, 0, 0, 0, 0, 0, 0, 0, 0, 0, 0, 0, 0, 0, 0, 0, 0,
     0, 0, 0, 0, 0, 0, 0, 0, 0, 0, 0, 0, 0, 0x28]"
  by (simp add: sha1_pad_def Let_def upt8 replicate_numeral)

lemma sha1_56789_chunks:
  "chunks 64 (sha1_pad [0x35, 0x36, 0x37, 0x38, 0x39]) = [sha1_pad [0x35, 0x36, 0x37, 0x38, 0x39]]"
  by (simp add: sha1_56789_pad chunks_numeral del: chunks.simps(2))

lemma sha1_56789_words:
  "map be32 (chunks 4 (sha1_pad [0x35, 0x36, 0x37, 0x38, 0x39])) =
    [0x35363738, 0x39800000, 0, 0, 0, 0, 0, 0, 0, 0, 0, 0, 0, 0, 0, 0x28]"
  by (simp add: sha1_56789_pad be32_def chunks_numeral del: chunks.simps(2))

lemma sha1_56789_schedule:
  "schedule 64
    [0x35363738, 0x39800000, 0, 0, 0, 0, 0, 0, 0, 0, 0, 0, 0, 0, 0, 0x28] =
    [0x35363738, 0x39800000, 0, 0, 0, 0, 0, 0, 0, 0, 0, 0, 0, 0, 0, 0x28, 0x6A6C6E70,
     0x73000000, 0x50, 0xD4D8DCE0, 0xE6000000, 0xA0, 0xA9B1B9C1, 0xCC000051, 0xD4D8DDA0,
     0xB5637383, 0x98000003, 0x280, 0xA6C6E706, 0x30000117, 0x87BBAA63, 0x338DCEFE,
     0x1D69652F, 0x2A000A01, 0x9B1B9D5A, 0x936377DF, 0x86EEA98D, 0xCE373978, 0xD36373BA,
     0x98002943, 0x3F0D03E9, 0x98001170, 0x7BBAA638, 0x38DCEF43, 0x7F27EB30, 0x6C00A153,
     0xE2DAA76A, 0xFD540D19, 0xAAFEB59F, 0x87739789, 0x36373FED, 0x9EEC28F7, 0x5BB34D1D,
     0x18011D0A, 0x20B1FF9D, 0x4DCEF06F, 0xEC901A89, 0xE3D2C4E, 0xFEC90514, 0x4D40F8DC,
     0x90E65A13, 0xEF3968A8, 0x4BAA2B68, 0x4E1E61D9, 0x3EC1F0A7, 0xB81170B0, 0xBAA62C7B,
     0xEAD87B0D, 0xA7EB3046, 0xA1536C, 0xDAA76AE2, 0x540D1B7D, 0x587378AC, 0x43979D80,
     0x108D003, 0x21A527AA, 0x7E61B97A, 0x411D143D, 0x1CD32D0F, 0xB8C766DD]"
  by (simp add: schedule_numeral schedule_one rotl_def del: schedule.simps(2))

lemma sha1_56789_rounds20:
  "foldl sha1_round (0x67452301, 0xEFCDAB89, 0x98BADCFE, 0x10325476, 0xC3D2E1F0)
    [(0, 0x35363738), (1, 0x39800000), (2, 0), (3, 0), (4, 0), (5, 0), (6, 0), (7, 0),
     (8, 0), (9, 0), (10, 0), (11, 0), (12, 0), (13, 0), (14, 0), (15, 0x28),
     (16, 0x6A6C6E70), (17, 0x73000000), (18, 0x50), (19, 0xD4D8DCE0)] =
    (0xDA40839F, 0x36B9A210, 0x4DBF3C5F, 0xCEF841C2, 0x15D4D206)"
  by (simp add: rotl_def)

lemma sha1_56789_rounds40:
  "foldl sha1_round (0xDA40839F, 0x36B9A210, 0x4DBF3C5F, 0xCEF841C2, 0x15D4D206)
    [(20, 0xE6000000), (21, 0xA0), (22, 0xA9B1B9C1), (23, 0xCC000051), (24, 0xD4D8DDA0),
     (25, 0xB5637383), (26, 0x98000003), (27, 0x280), (28, 0xA6C6E706),
     (29, 0x30000117), (30, 0x87BBAA63), (31, 0x338DCEFE), (32, 0x1D69652F),
     (33, 0x2A000A01), (34, 0x9B1B9D5A), (35, 0x936377DF), (36, 0x86EEA98D),
     (37, 0xCE373978), (38, 0xD36373BA), (39, 0x98002943)] =
    (0x21F13AF7, 0x1AA38367, 0x5416D986, 0xBDD6DBE4, 0xD7A9A52D)"
  by (simp add: rotl_def)

lemma sha1_56789_rounds60:
  "foldl sha1_round (0x21F13AF7, 0x1AA38367, 0x5416D986, 0xBDD6DBE4, 0xD7A9A52D)
    [(40, 0x3F0D03E9), (41, 0x98001170), (42, 0x7BBAA638), (43, 0x38DCEF43),
     (44, 0x7F27EB30), (45, 0x6C00A153), (46, 0xE2DAA76A), (47, 0xFD540D19),
     (48, 0xAAFEB59F), (49, 0x87739789), (50, 0x36373FED), (51, 0x9EEC28F7),
     (52, 0x5BB34D1D), (53, 0x18011D0A), (54, 0x20B1FF9D), (55, 0x4DCEF06F),
     (56, 0xEC901A89), (57, 0xE3D2C4E), (58, 0xFEC90514), (59, 0x4D40F8DC)] =
    (0x4FAF49E0, 0x36350221, 0xF625C2A6, 0x1364F166, 0xFCF92612)"
  by (simp add: rotl_def)

lemma sha1_56789_rounds80:
  "foldl sha1_round (0x4FAF49E0, 0x36350221, 0xF625C2A6, 0x1364F166, 0xFCF92612)
    [(60, 0x90E65A13), (61, 0xEF3968A8), (62, 0x4BAA2B68), (63, 0x4E1E61D9),
     (64, 0x3EC1F0A7), (65, 0xB81170B0), (66, 0xBAA62C7B), (67, 0xEAD87B0D),
     (68, 0xA7EB3046), (69, 0xA1536C), (70, 0xDAA76AE2), (71, 0x540D1B7D),
     (72, 0x587378AC), (73, 0x43979D80), (74, 0x108D003), (75, 0x21A527AA),
     (76, 0x7E61B97A), (77, 0x411D143D), (78, 0x1CD32D0F), (79, 0xB8C766DD)] =
    (0x8ADDFA27, 0x8218E519, 0x9C27F9, 0x92656905, 0x2790530)"
  by (simp add: rotl_def)

lemma sha1_56789_zip:
  "zip [0..<80]
    [0x35363738, 0x39800000, 0, 0, 0, 0, 0, 0, 0, 0, 0, 0, 0, 0, 0, 0x28, 0x6A6C6E70,
     0x73000000, 0x50, 0xD4D8DCE0, 0xE6000000, 0xA0, 0xA9B1B9C1, 0xCC000051, 0xD4D8DDA0,
     0xB5637383, 0x98000003, 0x280, 0xA6C6E706, 0x30000117, 0x87BBAA63, 0x338DCEFE,
     0x1D69652F, 0x2A000A01, 0x9B1B9D5A, 0x936377DF, 0x86EEA98D, 0xCE373978, 0xD36373BA,
     0x98002943, 0x3F0D03E9, 0x98001170, 0x7BBAA638, 0x38DCEF43, 0x7F27EB30, 0x6C00A153,
     0xE2DAA76A, 0xFD540D19, 0xAAFEB59F, 0x87739789, 0x36373FED, 0x9EEC28F7, 0x5BB34D1D,
     0x18011D0A, 0x20B1FF9D, 0x4DCEF06F, 0xEC901A89, 0xE3D2C4E, 0xFEC90514, 0x4D40F8DC,
     0x90E65A13, 0xEF3968A8, 0x4BAA2B68, 0x4E1E61D9, 0x3EC1F0A7, 0xB81170B0, 0xBAA62C7B,
     0xEAD87B0D, 0xA7EB3046, 0xA1536C, 0xDAA76AE2, 0x540D1B7D, 0x587378AC, 0x43979D80,
     0x108D003, 0x21A527AA, 0x7E61B97A, 0x411D143D, 0x1CD32D0F, 0xB8C766DD] =
    [(0, 0x35363738), (1, 0x39800000), (2, 0), (3, 0), (4, 0), (5, 0), (6, 0), (7, 0),
     (8, 0), (9, 0), (10, 0), (11, 0), (12, 0), (13, 0), (14, 0), (15, 0x28),
     (16, 0x6A6C6E70), (17, 0x73000000), (18, 0x50), (19, 0xD4D8DCE0)] @
    [(20, 0xE6000000), (21, 0xA0), (22, 0xA9B1B9C1), (23, 0xCC000051), (24, 0xD4D8DDA0),
     (25, 0xB5637383), (26, 0x98000003), (27, 0x280), (28, 0xA6C6E706),
     (29, 0x30000117), (30, 0x87BBAA63), (31, 0x338DCEFE), (32, 0x1D69652F),
     (33, 0x2A000A01), (34, 0x9B1B9D5A), (35, 0x936377DF), (36, 0x86EEA98D),
     (37, 0xCE373978), (38, 0xD36373BA), (39, 0x98002943)] @
    [(40, 0x3F0D03E9), (41, 0x98001170), (42, 0x7BBAA638), (43, 0x38DCEF43),
     (44, 0x7F27EB30), (45, 0x6C00A153), (46, 0xE2DAA76A), (47, 0xFD540D19),
     (48, 0xAAFEB59F), (49, 0x87739789), (50, 0x36373FED), (51, 0x9EEC28F7),
     (52, 0x5BB34D1D), (53, 0x18011D0A), (54, 0x20B1FF9D), (55, 0x4DCEF06F),
     (56, 0xEC901A89), (57, 0xE3D2C4E), (58, 0xFEC90514), (59, 0x4D40F8DC)] @
    [(60, 0x90E65A13), (61, 0xEF3968A8), (62, 0x4BAA2B68), (63, 0x4E1E61D9),
     (64, 0x3EC1F0A7), (65, 0xB81170B0), (66, 0xBAA62C7B), (67, 0xEAD87B0D),
     (68, 0xA7EB3046), (69, 0xA1536C), (70, 0xDAA76AE2), (71, 0x540D1B7D),
     (72, 0x587378AC), (73, 0x43979D80), (74, 0x108D003), (75, 0x21A527AA),
     (76, 0x7E61B97A), (77, 0x411D143D), (78, 0x1CD32D0F), (79, 0xB8C766DD)]"
  by (simp add: upt80)

lemma sha1_56789_block:
  "sha1_block (0x67452301, 0xEFCDAB89, 0x98BADCFE, 0x10325476, 0xC3D2E1F0)
     (sha1_pad [0x35, 0x36, 0x37, 0x38, 0x39]) =
    (0xF2231D28, 0x71E690A2, 0x995704F7, 0xA297BD7B, 0xC64BE720)"
  by (simp only: sha1_block.simps sha1_56789_words sha1_56789_schedule sha1_56789_zip Let_def foldl_append
        sha1_56789_rounds20 sha1_56789_rounds40 sha1_56789_rounds60 sha1_56789_rounds80 prod.case)
     simp

lemma sha1_56789_digest:
  "hexdigest (sha1 (encode_utf8 ''56789'')) = ''f2231d2871e690a2995704f7a297bd7bc64be720''"
  by (simp add: sha1_def sha1_56789_bytes sha1_56789_chunks sha1_56789_block hex32_def upt8 hex_digit_simps
        del: sha1_block.simps)

lemma sha1_01234_bytes: "encode_utf8 ''01234'' = [0x30, 0x31, 0x32, 0x33, 0x34]"
  by (simp add: encode_utf8_def utf8_char_def)

lemma sha1_01234_pad:
  "sha1_pad [0x30, 0x31, 0x32, 0x33, 0x34] =
    [0x30, 0x31, 0x32, 0x33, 0x34, 0x80, 0, 0, 0, 0, 0, 0, 0, 0, 0, 0, 0, 0, 0, 0, 0, 0,
     0, 0, 0, 0, 0, 0, 0, 0, 0, 0, 0, 0, 0, 0, 0, 0, 0, 0, 0, 0, 0, 0, 0, 0, 0, 0, 0, 0,
     0, 0, 0, 0, 0, 0, 0, 0, 0, 0, 0, 0, 0, 0x28]"
  by (simp add: sha1_pad_def Let_def upt8 replicate_numeral)

lemma sha1_01234_chunks:
  "chunks 64 (sha1_pad [0x30, 0x31, 0x32, 0x33, 0x34]) = [sha1_pad [0x30, 0x31, 0x32, 0x33, 0x34]]"
  by (simp add: sha1_01234_pad chunks_numeral del: chunks.simps(2))

lemma sha1_01234_words:
  "map be32 (chunks 4 (sha1_pad [0x30, 0x31, 0x32, 0x33, 0x34])) =
    [0x30313233, 0x34800000, 0, 0, 0, 0, 0, 0, 0, 0, 0, 0, 0, 0, 0, 0x28]"
  by (simp add: sha1_01234_pad be32_def chunks_numeral del: chunks.simps(2))

lemma sha1_01234_schedule:
  "schedule 64
    [0x30313233, 0x34800000, 0, 0, 0, 0, 0, 0, 0, 0, 0, 0, 0, 0, 0, 0x28] =
    [0x30313233, 0x34800000, 0, 0, 0, 0, 0, 0, 0, 0, 0, 0, 0, 0, 0, 0x28, 0x60626466,
     0x69000000, 0x50, 0xC0C4C8CC, 0xD2000000, 0xA0, 0x81899199, 0xA4000051, 0xC0C4C98C,
     0xD1132333, 0x48000003, 0x280, 0x6264666, 0x90000116, 0xC3D7EEFF, 0x964C8C3F,
     0x614D5958, 0x76000A01, 0x189918D8, 0x43132769, 0x475FBBFC, 0x5932327E, 0x83132307,
     0x48002943, 0x61774553, 0x4800116A, 0x3D7EEFFC, 0x64C8C359, 0x955C041F, 0xC400A156,
     0x8A82AFF2, 0x7A2156C4, 0xB9474B0B, 0xEF2327E1, 0x31323438, 0x8F5D3A8B, 0x7C67760B,
     0xC8011CA7, 0xCF77E65B, 0xC8C31CC, 0x5A9FFA06, 0x19382712, 0x2B39DC2F, 0xEA154504,
     0xF503F5E8, 0xBA326E34, 0x2D4E8F4C, 0xD91B6A02, 0xD1B1D602, 0xA8116A68, 0x7EEFE83D,
     0xF9F16A54, 0xDC041FA1, 0xA156C4, 0x82AFF28A, 0x2156C6FA, 0x416D4DDF, 0xB327F5E9,
     0x3060E01, 0xD1761977, 0x6EDD21D9, 0xC11CB9E6, 0x5E4D6567, 0x7D03CE92]"
  by (simp add: schedule_numeral schedule_one rotl_def del: schedule.simps(2))

lemma sha1_01234_rounds20:
  "foldl sha1_round (0x67452301, 0xEFCDAB89, 0x98BADCFE, 0x10325476, 0xC3D2E1F0)
    [(0, 0x30313233), (1, 0x34800000), (2, 0), (3, 0), (4, 0), (5, 0), (6, 0), (7, 0),
     (8, 0), (9, 0), (10, 0), (11, 0), (12, 0), (13, 0), (14, 0), (15, 0x28),
     (16, 0x60626466), (17, 0x69000000), (18, 0x50), (19, 0xC0C4C8CC)] =
    (0x77ABD216, 0xA141594F, 0x5ADA133F, 0xFE46D77E, 0xB36C98D)"
  by (simp add: rotl_def)

lemma sha1_01234_rounds40:
  "foldl sha1_round (0x77ABD216, 0xA141594F, 0x5ADA133F, 0xFE46D77E, 0xB36C98D)
    [(20, 0xD2000000), (21, 0xA0), (22, 0x81899199), (23, 0xA4000051), (24, 0xC0C4C98C),
     (25, 0xD1132333), (26, 0x48000003), (27, 0x280), (28, 0x6264666), (29, 0x90000116),
     (30, 0xC3D7EEFF), (31, 0x964C8C3F), (32, 0x614D5958), (33, 0x76000A01),
     (34, 0x189918D8), (35, 0x43132769), (36, 0x475FBBFC), (37, 0x5932327E),
     (38, 0x83132307), (39, 0x48002943)] =
    (0xDA629C5E, 0xDBBC3CB4, 0x6A173990, 0x102C6439, 0x9C1F24D0)"
  by (simp add: rotl_def)

lemma sha1_01234_rounds60:
  "foldl sha1_round (0xDA629C5E, 0xDBBC3CB4, 0x6A173990, 0x102C6439, 0x9C1F24D0)
    [(40, 0x61774553), (41, 0x4800116A), (42, 0x3D7EEFFC), (43, 0x64C8C359),
     (44, 0x955C041F), (45, 0xC400A156), (46, 0x8A82AFF2), (47, 0x7A2156C4),
     (48, 0xB9474B0B), (49, 0xEF2327E1), (50, 0x31323438), (51, 0x8F5D3A8B),
     (52, 0x7C67760B), (53, 0xC8011CA7), (54, 0xCF77E65B), (55, 0xC8C31CC),
     (56, 0x5A9FFA06), (57, 0x19382712), (58, 0x2B39DC2F), (59, 0xEA154504)] =
    (0xE6B2F2F6, 0xF22FA320, 0x2E286E3, 0x3C52AC77, 0x74FCA7E5)"
  by (simp add: rotl_def)

lemma sha1_01234_rounds80:
  "foldl sha1_round (0xE6B2F2F6, 0xF22FA320, 0x2E286E3, 0x3C52AC77, 0x74FCA7E5)
    [(60, 0xF503F5E8), (61, 0xBA326E34), (62, 0x2D4E8F4C), (63, 0xD91B6A02),
     (64, 0xD1B1D602), (65, 0xA8116A68), (66, 0x7EEFE83D), (67, 0xF9F16A54),
     (68, 0xDC041FA1), (69, 0xA156C4), (70, 0x82AFF28A), (71, 0x2156C6FA),
     (72, 0x416D4DDF), (73, 0xB327F5E9), (74, 0x3060E01), (75, 0xD1761977),
     (76, 0x6EDD21D9), (77, 0xC11CB9E6), (78, 0x5E4D6567), (79, 0x7D03CE92)] =
    (0xAA4B274D, 0x9BAA4A9B, 0x95724B89, 0xF4CFE664, 0xC37B120)"
  by (simp add: rotl_def)

lemma sha1_01234_zip:
  "zip [0..<80]
    [0x30313233, 0x34800000, 0, 0, 0, 0, 0, 0, 0, 0, 0, 0, 0, 0, 0, 0x28, 0x60626466,
     0x69000000, 0x50, 0xC0C4C8CC, 0xD2000000, 0xA0, 0x81899199, 0xA4000051, 0xC0C4C98C,
     0xD1132333, 0x48000003, 0x280, 0x6264666, 0x90000116, 0xC3D7EEFF, 0x964C8C3F,
     0x614D5958, 0x76000A01, 0x189918D8, 0x43132769, 0x475FBBFC, 0x5932327E, 0x83132307,
     0x48002943, 0x61774553, 0x4800116A, 0x3D7EEFFC, 0x64C8C359, 0x955C041F, 0xC400A156,
     0x8A82AFF2, 0x7A2156C4, 0xB9474B0B, 0xEF2327E1, 0x31323438, 0x8F5D3A8B, 0x7C67760B,
     0xC8011CA7, 0xCF77E65B, 0xC8C31CC, 0x5A9FFA06, 0x19382712, 0x2B39DC2F, 0xEA154504,
     0xF503F5E8, 0xBA326E34, 0x2D4E8F4C, 0xD91B6A02, 0xD1B1D602, 0xA8116A68, 0x7EEFE83D,
     0xF9F16A54, 0xDC041FA1, 0xA156C4, 0x82AFF28A, 0x2156C6FA, 0x416D4DDF, 0xB327F5E9,
     0x3060E01, 0xD1761977, 0x6EDD21D9, 0xC11CB9E6, 0x5E4D6567, 0x7D03CE92] =
    [(0, 0x30313233), (1, 0x34800000), (2, 0), (3, 0), (4, 0), (5, 0), (6, 0), (7, 0),
     (8, 0), (9, 0), (10, 0), (11, 0), (12, 0), (13, 0), (14, 0), (15, 0x28),
     (16, 0x60626466), (17, 0x69000000), (18, 0x50), (19, 0xC0C4C8CC)] @
    [(20, 0xD2000000), (21, 0xA0), (22, 0x81899199), (23, 0xA4000051), (24, 0xC0C4C98C),
     (25, 0xD1132333), (26, 0x48000003), (27, 0x280), (28, 0x6264666), (29, 0x90000116),
     (30, 0xC3D7EEFF), (31, 0x964C8C3F), (32, 0x614D5958), (33, 0x76000A01),
     (34, 0x189918D8), (35, 0x43132769), (36, 0x475FBBFC), (37, 0x5932327E),
     (38, 0x83132307), (39, 0x48002943)] @
    [(40, 0x61774553), (41, 0x4800116A), (42, 0x3D7EEFFC), (43, 0x64C8C359),
     (44, 0x955C041F), (45, 0xC400A156), (46, 0x8A82AFF2), (47, 0x7A2156C4),
     (48, 0xB9474B0B), (49, 0xEF2327E1), (50, 0x31323438), (51, 0x8F5D3A8B),
     (52, 0x7C67760B), (53, 0xC8011CA7), (54, 0xCF77E65B), (55, 0xC8C31CC),
     (56, 0x5A9FFA06), (57, 0x19382712), (58, 0x2B39DC2F), (59, 0xEA154504)] @
    [(60, 0xF503F5E8), (61, 0xBA326E34), (62, 0x2D4E8F4C), (63, 0xD91B6A02),
     (64, 0xD1B1D602), (65, 0xA8116A68), (66, 0x7EEFE83D), (67, 0xF9F16A54),
     (68, 0xDC041FA1), (69, 0xA156C4), (70, 0x82AFF28A), (71, 0x2156C6FA),
     (72, 0x416D4DDF), (73, 0xB327F5E9), (74, 0x3060E01), (75, 0xD1761977),
     (76, 0x6EDD21D9), (77, 0xC11CB9E6), (78, 0x5E4D6567), (79, 0x7D03CE92)]"
  by (simp add: upt80)

lemma sha1_01234_block:
  "sha1_block (0x67452301, 0xEFCDAB89, 0x98BADCFE, 0x10325476, 0xC3D2E1F0)
     (sha1_pad [0x30, 0x31, 0x32, 0x33, 0x34]) =
    (0x11904A4E, 0x8B77F624, 0x2E2D2887, 0x5023ADA, 0xD00A9310)"
  by (simp only: sha1_block.simps sha1_01234_words sha1_01234_schedule sha1_01234_zip Let_def foldl_append
        sha1_01234_rounds20 sha1_01234_rounds40 sha1_01234_rounds60 sha1_01234_rounds80 prod.case)
     simp

lemma sha1_01234_digest:
  "hexdigest (sha1 (encode_utf8 ''01234'')) = ''11904a4e8b77f6242e2d288705023adad00a9310''"
  by (simp add: sha1_def sha1_01234_bytes sha1_01234_chunks sha1_01234_block hex32_def upt8 hex_digit_simps
        del: sha1_block.simps)


lemma get_hash_56789:
  "get_hash [''5'', ''6'', ''7'', ''8'', ''9''] = ''f2231d2871e690a2995704f7a297bd7bc64be720''"
  by (simp add: get_hash_concat sha1_56789_digest)

lemma get_hash_01234:
  "get_hash [''0'', ''1'', ''2'', ''3'', ''4''] = ''11904a4e8b77f6242e2d288705023adad00a9310''"
  by (simp add: get_hash_concat sha1_01234_digest)

subsection \<open>The tests of the repository\<close>

lemma test_store_fields:
  "test_store =
     \<lparr>objs_in_disk = Some ''0,1,2,3,4,5,6,7,8,9,'',
      metadata_file =
        Some [(''11904a4e8b77f6242e2d288705023adad00a9310.pkl'', [''0'', ''1'', ''2'', ''3'', ''4'']),
              (''f2231d2871e690a2995704f7a297bd7bc64be720.pkl'', [''5'', ''6'', ''7'', ''8'', ''9''])],
      pkl_dir =
        [(''11904a4e8b77f6242e2d288705023adad00a9310.pkl'',
          map (\<lambda>k. (k, galaxy k 7)) [''0'', ''1'', ''2'', ''3'', ''4'']),
         (''f2231d2871e690a2995704f7a297bd7bc64be720.pkl'',
          map (\<lambda>k. (k, galaxy k 8)) [''5'', ''6'', ''7'', ''8'', ''9''])],
      obj_set = {''0'', ''1'', ''2'', ''3'', ''4'', ''5'', ''6'', ''7'', ''8'', ''9''},
      last_modified = 20, max_objects = 1000,
      metaclass = RedShiftCheckPointObject_class\<rparr>"
  by (auto simp add: test_store_def init_def store_eval galaxy_fields_init
        get_hash_56789 get_hash_01234)

text \<open>
  \<open>test_last_modified\<close>, \<open>test_get_specific_object\<close>, \<open>test_get_all_objects_info\<close>
  and \<open>test_file_not_found\<close>, which reads the pickle file of the second batch by its
  name.
\<close>

lemma tests_pass:
  "last_modified test_store \<noteq> 11"
  "map_result key (get_specific_object ''9'' test_store) = Returns ''9''"
  "length (return_all_objects_info test_store) = 2"
  "map_result length (return_objects_for ''f2231d2871e690a2995704f7a297bd7bc64be720.pkl'' test_store)
     = Returns 5"
  by (simp_all add: test_store_fields get_specific_object_def return_all_objects_info_def
        return_objects_for_def)

subsection \<open>The index entries and their files\<close>

text \<open>
  The index entries keep naming files with their keys through every call of
  \<open>save_objects\<close> on any directory, and through the construction of a further instance.
\<close>

lemma blobs_match_index_written:
  fixes self :: "('d, 'o) CheckPointer"
  assumes ok: "blobs_match_index self"
    and dist: "distinct (dict_keys (return_all_objects_info self))"
    and self': "self' = (update_objects_on_disk (map (key_of (metaclass self)) xs)
                      (save_pkl (store_each (metaclass self) xs []) self))\<lparr>last_modified := now\<rparr>"
  shows "blobs_match_index self' \<and> distinct (dict_keys (return_all_objects_info self'))"
proof -
  let ?d = "store_each (metaclass self) xs []"
  let ?f = "pkl_name (dict_keys ?d)"
  note w = written_fields [OF self']
  have info: "return_all_objects_info self' =
              dict_setitem ?f (dict_keys ?d) (return_all_objects_info self)"
    by (simp add: return_all_objects_info_def w(2))
  have "case map_of (pkl_dir self') f of None \<Rightarrow> False | Some d \<Rightarrow> dict_keys d = ks"
    if "(f, ks) \<in> set (return_all_objects_info self')" for f ks
  proof (cases "f = ?f")
    case True
    from dist have d': "distinct (map fst (return_all_objects_info self'))"
      using distinct_dict_keys_setitem [of "return_all_objects_info self" ?f "dict_keys ?d"]
      by (simp add: info dict_keys_def)
    have "map_of (return_all_objects_info self') ?f = Some (dict_keys ?d)"
      by (simp add: info map_of_dict_setitem)
    moreover from d' that True have "map_of (return_all_objects_info self') ?f = Some ks"
      by simp
    ultimately have "ks = dict_keys ?d" by simp
    then show ?thesis
      by (simp add: True w(1) map_of_dict_setitem)
  next
    case False
    with that have "(f, ks) \<in> set (return_all_objects_info self)"
      using set_dict_setitem_subset [of ?f "dict_keys ?d" "return_all_objects_info self"]
      by (auto simp: info)
    with ok have "case map_of (pkl_dir self) f of None \<Rightarrow> False | Some d \<Rightarrow> dict_keys d = ks"
      by (auto simp: blobs_match_index_def list_all_iff)
    with False show ?thesis
      by (simp add: w(1) map_of_dict_setitem)
  qed
  then have "blobs_match_index self'"
    by (auto simp: blobs_match_index_def list_all_iff)
  moreover have "distinct (dict_keys (return_all_objects_info self'))"
    using dist by (simp add: info distinct_dict_keys_setitem)
  ultimately show ?thesis ..
qed

lemma save_objects_blobs_match_index:
  assumes "blobs_match_index self"
    and "distinct (dict_keys (return_all_objects_info self))"
    and "save_objects now meta_objects self = (r, self')"
  shows "blobs_match_index self' \<and> distinct (dict_keys (return_all_objects_info self'))"
proof (cases meta_objects)
  case None
  with assms show ?thesis by (simp add: save_objects_None)
next
  case (Some objs)
  show ?thesis
  proof (cases "int (length objs) \<le> max_objects self
                \<and> list_all (well_shaped (metaclass self)) objs")
    case True
    then have "save_objects now (Some objs) self =
      (Returns (),
       if unseen (metaclass self) (obj_set self) objs = [] then self
       else (update_objects_on_disk
               (map (key_of (metaclass self)) (unseen (metaclass self) (obj_set self) objs))
               (save_pkl (store_each (metaclass self)
                            (unseen (metaclass self) (obj_set self) objs) []) self))
            \<lparr>last_modified := now\<rparr>)"
      by (simp add: save_objects_well_shaped)
    with assms Some show ?thesis
      by (auto split: if_splits dest: blobs_match_index_written)
  next
    case False
    then have "self' = self"
      using assms(3) Some
      by (auto simp: save_objects_def collect_ill_shaped split: if_splits)
    with assms(1,2) show ?thesis by simp
  qed
qed

lemma init_blobs_match_index:
  fixes self' :: "('d, 'o) CheckPointer"
  assumes "blobs_match_index self"
    and "distinct (dict_keys (return_all_objects_info self))"
    and "init (objs_in_disk self) (metadata_file self) (pkl_dir self) mtime t0 t1 mc overwrite
           meta_objects maxo = (r, self')"
  shows "blobs_match_index self' \<and> distinct (dict_keys (return_all_objects_info self'))"
proof -
  let ?s = "\<lparr>objs_in_disk = (if overwrite then None else objs_in_disk self),
             metadata_file = (if overwrite then None else metadata_file self),
             pkl_dir = (if overwrite then [] else pkl_dir self),
             obj_set = (case (if overwrite then None else objs_in_disk self) of
                          Some content \<Rightarrow> set (str_split CHR '','' content)
                        | None \<Rightarrow> {}),
             last_modified = (case (if overwrite then None else objs_in_disk self) of
                                Some _ \<Rightarrow> mtime | None \<Rightarrow> t0),
             max_objects = maxo, metaclass = mc\<rparr> :: ('d, 'o) CheckPointer"
  from assms(1,2) have "blobs_match_index ?s" "distinct (dict_keys (return_all_objects_info ?s))"
    by (simp_all add: blobs_match_index_def return_all_objects_info_def dict_keys_def)
  moreover from assms(3) have "save_objects t1 meta_objects ?s = (r, self')"
    by (simp add: init_def Let_def)
  ultimately show ?thesis by (rule save_objects_blobs_match_index)
qed

subsection \<open>Looking up a key that a call has accepted\<close>

text \<open>
  Two objects of one batch with the same unseen key are both accepted, and the later
  one takes the place of the earlier one in the dictionary that is pickled: looking the
  key up gives the later object.
\<close>

lemma repeated_key_lookup:
  "''7'' \<notin> obj_set new_store
   \<and> fst (save_objects 5 (Some [Instance (galaxy ''7'' 1), Instance (galaxy ''7'' 2)]) new_store)
       = Returns ()
   \<and> get_specific_object ''7''
       (snd (save_objects 5 (Some [Instance (galaxy ''7'' 1), Instance (galaxy ''7'' 2)]) new_store))
       = Returns (galaxy ''7'' 2)
   \<and> galaxy ''7'' 2 \<noteq> galaxy ''7'' 1"
  by (simp add: new_store_simps store_eval galaxy_def)

text \<open>
  When a call has accepted an object whose key no index entry listed,
  \<open>get_specific_object\<close> with that key, called when the call has returned, returns the
  last object of the batch that carries the key.
\<close>

lemma get_after_save:
  assumes call: "save_objects now (Some objs) self = (Returns (), self')"
    and cand: "c \<in> set objs" "as_instance (metaclass self) c = Returns x"
    and new: "key_of (metaclass self) x \<notin> obj_set self"
    and unlisted: "entries_with (key_of (metaclass self) x) (return_all_objects_info self) = []"
  shows "get_specific_object (key_of (metaclass self) x) self'
         = Returns (last (occurrences (key_of (metaclass self) x) self objs))"
proof -
  let ?mc = "metaclass self"
  let ?k = "key_of ?mc x"
  let ?xs = "unseen ?mc (obj_set self) objs"
  let ?d = "store_each ?mc ?xs []"
  let ?f = "pkl_name (dict_keys ?d)"
  from cand have x: "x \<in> set (instances ?mc objs)" by (rule instances_member)
  with new have xs: "x \<in> set ?xs" by (simp add: unseen_def)
  then have "?xs \<noteq> []" by auto
  with call have self': "self' = (update_objects_on_disk (map (key_of ?mc) ?xs)
                    (save_pkl ?d self))\<lparr>last_modified := now\<rparr>"
    using save_objects_accepting [of now objs self self'] by (simp add: keys_to_save_def)
  note w = written_fields [OF self']
  have occ: "filter (\<lambda>y. key_of ?mc y = ?k) ?xs = occurrences ?k self objs"
    using new by (simp add: occurrences_def filter_key_unseen)
  from x have occ_ne: "occurrences ?k self objs \<noteq> []"
    by (auto simp: occurrences_def filter_empty_conv)
  have member: "map_of ?d ?k = Some (last (occurrences ?k self objs))"
    using occ_ne by (simp add: map_of_store_each occ split: list.splits)
  have listed: "?k \<in> set (dict_keys ?d)"
    using xs set_keys_store_each [of ?mc ?xs "[]"] by (auto simp: dict_keys_def)
  have old: "\<forall>e \<in> set (return_all_objects_info self). \<not> (case e of (f, ks) \<Rightarrow> ?k \<in> set ks)"
    using unlisted by (auto simp: entries_with_def filter_empty_conv)
  have "entries_with ?k (dict_setitem ?f (dict_keys ?d) (return_all_objects_info self))
        = [(?f, dict_keys ?d)]"
    unfolding entries_with_def using old listed by (intro filter_dict_setitem_only) auto
  then have tgt: "find_tgt_file ?k (dict_setitem ?f (dict_keys ?d) (return_all_objects_info self)) None
                  = Some ?f"
    by (simp add: find_tgt_file_last)
  show ?thesis
    by (simp add: get_specific_object_def w(1) w(2) tgt map_of_dict_setitem member)
qed


section \<open>The claims\<close>

text \<open>
  C1, at an input where the code breaks it. From an empty store, a batch with the key
  \<open>ab\<close> and then a batch with the keys \<open>a\<close> and \<open>b\<close>: both calls return, the second
  file name is the first, and the entry of the first batch is replaced in the index
  document. \<open>obj_set\<close> then holds \<open>ab\<close>, the index document does not.
\<close>

theorem index_loses_key:
  "save_all [(10, Some [Instance (galaxy ''ab'' 11)]),
             (20, Some [Instance (galaxy ''a'' 12), Instance (galaxy ''b'' 13)])] new_store
     = Some collided
   \<and> obj_set collided = {''ab'', ''a'', ''b''}
   \<and> return_all_objects_info collided = [(pkl_name [''ab''], [''a'', ''b''])]
   \<and> set (index_keys collided) = {''a'', ''b''}
   \<and> obj_set collided \<noteq> set (index_keys collided)"
proof -
  have "''ab'' \<in> obj_set collided" "''ab'' \<notin> set (index_keys collided)"
    by (simp_all add: collided_fields index_keys_def return_all_objects_info_def)
  then have "obj_set collided \<noteq> set (index_keys collided)" by blast
  then show ?thesis
    by (simp add: ab_saved_returns collided_returns)
       (simp add: collided_fields index_keys_def return_all_objects_info_def)
qed

text \<open>
  C2, at an input where the code breaks it. From an empty store, a batch with the key
  \<open>ab\<close>: the object is accepted, and looking \<open>ab\<close> up returns it. Then a batch with the
  keys \<open>a\<close> and \<open>b\<close>, which is saved under the file name of the first: looking \<open>ab\<close>
  up now raises \<open>KeyError\<close>, and the object that was saved is in no file.
\<close>

theorem saved_object_lost:
  "save_objects 10 (Some [Instance (galaxy ''ab'' 11)]) new_store = (Returns (), ab_saved)
   \<and> ''ab'' \<notin> obj_set new_store
   \<and> get_specific_object ''ab'' ab_saved = Returns (galaxy ''ab'' 11)
   \<and> save_objects 20 (Some [Instance (galaxy ''a'' 12), Instance (galaxy ''b'' 13)]) ab_saved
       = (Returns (), collided)
   \<and> get_specific_object ''ab'' collided = Raises KeyError
   \<and> stored_copies ''ab'' collided = []"
  by (simp add: ab_saved_returns collided_returns)
     (simp add: new_store_simps ab_saved_fields collided_fields stored_copies_def
        get_specific_object_def)

text \<open>
  C3, at an input where the code breaks it. From an empty store, a batch with the key
  \<open>ab\<close>, a batch with the keys \<open>a\<close> and \<open>b\<close>, and a third call that submits the key
  \<open>ab\<close> again. The key is skipped as seen and the third call changes nothing, but no
  stored copy of \<open>ab\<close> exists: the second call has written its batch to the file of
  the first.
\<close>

theorem seen_key_without_copy:
  "save_all [(10, Some [Instance (galaxy ''ab'' 11)]),
             (20, Some [Instance (galaxy ''a'' 12), Instance (galaxy ''b'' 13)]),
             (30, Some [Instance (galaxy ''ab'' 14)])] new_store
     = Some collided
   \<and> stored_copies ''ab'' ab_saved = [galaxy ''ab'' 11]
   \<and> stored_copies ''ab'' collided = []
   \<and> get_specific_object ''ab'' collided = Raises KeyError"
  by (simp add: ab_saved_returns collided_returns resubmit_returns)
     (simp add: ab_saved_fields collided_fields stored_copies_def get_specific_object_def)

text \<open>
  C4. A batch with more candidates than \<open>max_objects\<close> makes \<open>save_objects\<close> raise
  \<open>ValueError\<close>, and the call leaves the store as it found it: ledger file, index
  document, pickle files, \<open>obj_set\<close> and \<open>last_modified\<close>.
\<close>

theorem save_objects_oversized:
  assumes "max_objects self < int (length objs)"
  shows "save_objects now (Some objs) self = (Raises ValueError, self)"
  using assms by (simp add: save_objects_def)

theorem save_objects_oversized_witness:
  "max_objects new_store < int (length (replicate 1001 (Instance (galaxy ''7'' 1))))
   \<and> save_objects 5 (Some (replicate 1001 (Instance (galaxy ''7'' 1)))) new_store
       = (Raises ValueError, new_store)"
proof -
  have h: "max_objects new_store < int (length (replicate 1001 (Instance (galaxy ''7'' 1))))"
    by (simp add: new_store_simps)
  show ?thesis using h save_objects_oversized [OF h, of 5] by simp
qed

text \<open>
  C5, as the code has it. The claim holds of the batches that pass the test of the
  threshold, which comes first: a batch of more than \<open>max_objects\<close> candidates raises
  \<open>ValueError\<close> whatever it contains.
\<close>

theorem ill_shaped_oversized_counterexample:
  "Foreign \<in> set (replicate 1001 Foreign)
   \<and> as_instance (metaclass new_store) Foreign = Raises TypeError
   \<and> save_objects 5 (Some (replicate 1001 Foreign)) new_store = (Raises ValueError, new_store)
   \<and> fst (save_objects 5 (Some (replicate 1001 Foreign)) new_store) \<noteq> Raises TypeError"
  by (simp add: save_objects_def new_store_simps as_instance_def)

text \<open>
  C5 amended. For every batch of at most \<open>max_objects\<close> candidates that contains a
  candidate which is neither an instance of the metaclass nor a dictionary of fields from
  which the metaclass can be constructed, \<open>save_objects\<close> raises \<open>TypeError\<close> and leaves
  the store as it found it, whatever candidates come before the offending one.
\<close>

theorem save_objects_ill_shaped:
  assumes "int (length objs) \<le> max_objects self"
    and "c \<in> set objs"
    and "c = Foreign \<or> (\<exists>kwargs. c = Dict kwargs \<and> new (metaclass self) kwargs = None)"
  shows "save_objects now (Some objs) self = (Raises TypeError, self)"
proof -
  from assms(3) have "\<not> well_shaped (metaclass self) c"
    by (auto simp: well_shaped_def as_instance_def)
  with assms(2) have "\<not> list_all (well_shaped (metaclass self)) objs"
    by (auto simp: list_all_iff)
  then have "collect (metaclass self) (obj_set self) objs ([], []) = Raises TypeError"
    by (rule collect_ill_shaped)
  with assms(1) show ?thesis
    by (simp add: save_objects_def)
qed

theorem save_objects_ill_shaped_witness:
  "int (length [Instance (galaxy ''0'' 1), Dict [(''key'', PyStr ''1'')]]) \<le> max_objects new_store
   \<and> new (metaclass new_store) [(''key'', PyStr ''1'')] = None
   \<and> save_objects 5 (Some [Instance (galaxy ''0'' 1), Dict [(''key'', PyStr ''1'')]]) new_store
       = (Raises TypeError, new_store)"
proof -
  have h1: "int (length [Instance (galaxy ''0'' 1), Dict [(''key'', PyStr ''1'')]])
            \<le> max_objects new_store"
    by (simp add: new_store_simps)
  have h2: "Dict [(''key'', PyStr ''1'')] \<in> set [Instance (galaxy ''0'' 1), Dict [(''key'', PyStr ''1'')]]"
    by simp
  have h3: "new (metaclass new_store) [(''key'', PyStr ''1'')] = None"
    by (simp add: new_store_simps init_missing_fields)
  show ?thesis
    using h1 h3 save_objects_ill_shaped [OF h1 h2, of 5] by simp
qed

text \<open>
  C6, at an input where the code breaks it. From an empty store, a batch with the key
  \<open>ab\<close> and then a batch with the keys \<open>a\<close> and \<open>b\<close>: each call writes a pickle file,
  and it is the same file. After the second call it holds the second batch, and the
  object of the first batch is in no file.
\<close>

theorem blob_rewritten:
  "save_objects 10 (Some [Instance (galaxy ''ab'' 11)]) new_store = (Returns (), ab_saved)
   \<and> pkl_dir ab_saved = [(pkl_name [''ab''], [(''ab'', galaxy ''ab'' 11)])]
   \<and> save_objects 20 (Some [Instance (galaxy ''a'' 12), Instance (galaxy ''b'' 13)]) ab_saved
       = (Returns (), collided)
   \<and> pkl_name (keys_to_save ab_saved [Instance (galaxy ''a'' 12), Instance (galaxy ''b'' 13)])
       = pkl_name (keys_to_save new_store [Instance (galaxy ''ab'' 11)])
   \<and> pkl_dir collided
       = [(pkl_name [''ab''], [(''a'', galaxy ''a'' 12), (''b'', galaxy ''b'' 13)])]"
proof -
  have "keys_to_save ab_saved [Instance (galaxy ''a'' 12), Instance (galaxy ''b'' 13)] = [''a'', ''b'']"
    and "keys_to_save new_store [Instance (galaxy ''ab'' 11)] = [''ab'']"
    by (simp_all add: keys_to_save_def unseen_def instances_def as_instance_def
          ab_saved_fields new_store_simps)
  then show ?thesis
    by (simp add: ab_saved_returns collided_returns pkl_name_joined)
       (simp add: ab_saved_fields collided_fields)
qed

text \<open>
  C7, at an input where the code breaks it. A store has appended the key \<open>0\<close> to its
  ledger file, which reads \<open>0,\<close>. A store constructed on that directory splits the
  text at the commas and takes the empty string after the last comma for a key:
  its \<open>obj_set\<close> is not the set of the keys appended, and it skips an object whose key
  is the empty string as seen. A ledger file that is present and empty gives the
  set of the empty string, not the empty set.
\<close>

theorem reload_adds_empty_key:
  "objs_in_disk first_save = Some ''0,''
   \<and> obj_set first_save = {''0''}
   \<and> init (objs_in_disk first_save) (metadata_file first_save) (pkl_dir first_save)
        3 4 4 RedShiftCheckPointObject_class False None 1000 = (Returns (), reloaded)
   \<and> obj_set reloaded = {''0'', ''''}
   \<and> save_objects 7 (Some [Instance (galaxy '''' 2)]) reloaded = (Returns (), reloaded)
   \<and> obj_set (snd (init (Some '''') None [] 3 4 4 RedShiftCheckPointObject_class False None 1000)
               :: galaxy_store) = {''''}"
  by (simp add: reloaded_def init_def save_objects_None first_save_fields)
     (simp add: store_eval)

text \<open>
  C8. In a checkpoint directory whose index entries name pickle files holding the keys
  they list, \<open>get_specific_object\<close> raises \<open>KeyError\<close> exactly when there is no index
  document or no entry of it lists the key; otherwise it returns the object under that
  key in the pickle file named by the last entry that lists the key.
\<close>

theorem get_specific_object_spec:
  assumes "blobs_match_index self"
  shows "(get_specific_object k self = Raises KeyError \<longleftrightarrow>
            metadata_file self = None \<or> entries_with k (return_all_objects_info self) = [])
       \<and> (metadata_file self \<noteq> None \<and> entries_with k (return_all_objects_info self) \<noteq> []
            \<longrightarrow> (\<exists>d x. map_of (pkl_dir self)
                          (fst (last (entries_with k (return_all_objects_info self)))) = Some d
                      \<and> map_of d k = Some x
                      \<and> get_specific_object k self = Returns x))"
proof (cases "metadata_file self")
  case None
  then show ?thesis by (simp add: get_specific_object_def)
next
  case (Some meta)
  then have info: "return_all_objects_info self = meta"
    by (simp add: return_all_objects_info_def)
  show ?thesis
  proof (cases "entries_with k meta")
    case Nil
    with Some info show ?thesis
      by (simp add: get_specific_object_def find_tgt_file_last)
  next
    case (Cons e es)
    obtain f ks where l: "last (entries_with k meta) = (f, ks)"
      by (cases "last (entries_with k meta)")
    from Cons have "last (entries_with k meta) \<in> set (entries_with k meta)"
      by simp
    with l have mem: "(f, ks) \<in> set meta" and k: "k \<in> set ks"
      using entries_with_subset [of k meta] entries_with_lists [of f ks k meta] by auto
    from assms mem info obtain d where d: "map_of (pkl_dir self) f = Some d" "dict_keys d = ks"
      by (auto simp: blobs_match_index_def list_all_iff split: option.splits)
    from k d(2) obtain x where x: "map_of d k = Some x"
      using map_of_keys [of k d] by auto
    have tgt: "find_tgt_file k meta None = Some f"
      using Cons l by (simp add: find_tgt_file_last)
    have "get_specific_object k self = Returns x"
      by (simp add: get_specific_object_def Some tgt d(1) x)
    with Some info Cons l d(1) x show ?thesis by simp
  qed
qed

theorem get_specific_object_spec_witness:
  "blobs_match_index two_blob_store
   \<and> entries_with ''b'' (return_all_objects_info two_blob_store)
       = [(''f1.pkl'', [''a'', ''b'']), (''f2.pkl'', [''b'', ''c''])]
   \<and> get_specific_object ''b'' two_blob_store = Returns (galaxy ''b'' 3)
   \<and> entries_with ''z'' (return_all_objects_info two_blob_store) = []
   \<and> get_specific_object ''z'' two_blob_store = Raises KeyError"
proof -
  have h: "blobs_match_index two_blob_store"
    by (simp add: blobs_match_index_def two_blob_store_def return_all_objects_info_def
          dict_keys_def)
  show ?thesis
    using h get_specific_object_spec [OF h, of "''b''"] get_specific_object_spec [OF h, of "''z''"]
    by (simp add: two_blob_store_def return_all_objects_info_def entries_with_def)
qed



text \<open>
  C10. When a batch that \<open>save_objects\<close> saves contains an unseen key \<open>k\<close> more than
  once, the call writes one pickle file: its name is the hash of the keys to save
  without their repetitions, it holds \<open>k\<close> once, with the last object of the batch that
  carries \<open>k\<close>, and its index entry lists the same keys, \<open>k\<close> once. The ledger file is
  extended by the comma-joined keys to save, in which \<open>k\<close> stands once for each of its
  occurrences in the batch.
\<close>

theorem repeated_key_in_batch:
  assumes call: "save_objects now (Some objs) self = (Returns (), self')"
    and new: "k \<notin> obj_set self"
    and twice: "1 < length (occurrences k self objs)"
  shows "(\<exists>d. pkl_dir self' =
               dict_setitem (pkl_name (first_occurrences (keys_to_save self objs))) d (pkl_dir self)
            \<and> dict_keys d = first_occurrences (keys_to_save self objs)
            \<and> map_of d k = Some (last (occurrences k self objs))
            \<and> count_list (dict_keys d) k = 1)
       \<and> metadata_file self' =
           Some (dict_setitem (pkl_name (first_occurrences (keys_to_save self objs)))
                   (first_occurrences (keys_to_save self objs)) (return_all_objects_info self))
       \<and> objs_in_disk self' =
           Some ((case objs_in_disk self of None \<Rightarrow> [] | Some t \<Rightarrow> t) @
                 str_join '','' (keys_to_save self objs) @ '','')
       \<and> count_list (keys_to_save self objs) k = length (occurrences k self objs)"
proof -
  let ?mc = "metaclass self"
  let ?xs = "unseen ?mc (obj_set self) objs"
  let ?d = "store_each ?mc ?xs []"
  have occ: "filter (\<lambda>y. key_of ?mc y = k) ?xs = occurrences k self objs"
    using new by (simp add: occurrences_def filter_key_unseen)
  from twice have occ_ne: "occurrences k self objs \<noteq> []" by auto
  with occ have "?xs \<noteq> []" by auto
  with call have self': "self' = (update_objects_on_disk (map (key_of ?mc) ?xs)
                    (save_pkl ?d self))\<lparr>last_modified := now\<rparr>"
    using save_objects_accepting [of now objs self self'] by (simp add: keys_to_save_def)
  note w = written_fields [OF self']
  have keys: "dict_keys ?d = first_occurrences (keys_to_save self objs)"
    by (simp add: keys_store_each_Nil keys_to_save_def)
  have member: "map_of ?d k = Some (last (occurrences k self objs))"
    using occ_ne by (simp add: map_of_store_each occ split: list.splits)
  have count: "count_list (keys_to_save self objs) k = length (occurrences k self objs)"
    by (simp add: keys_to_save_def count_list_map_key occ)
  with twice have "k \<in> set (keys_to_save self objs)"
    using count_list_0_iff [of "keys_to_save self objs" k] by auto
  then have once: "count_list (dict_keys ?d) k = 1"
    by (simp add: keys count_list_distinct)
  have "pkl_dir self' =
          dict_setitem (pkl_name (first_occurrences (keys_to_save self objs))) ?d (pkl_dir self)"
    using w(1) by (simp add: keys)
  with keys member once have blob:
    "\<exists>d. pkl_dir self' =
            dict_setitem (pkl_name (first_occurrences (keys_to_save self objs))) d (pkl_dir self)
         \<and> dict_keys d = first_occurrences (keys_to_save self objs)
         \<and> map_of d k = Some (last (occurrences k self objs))
         \<and> count_list (dict_keys d) k = 1"
    by blast
  have index: "metadata_file self' =
           Some (dict_setitem (pkl_name (first_occurrences (keys_to_save self objs)))
                   (first_occurrences (keys_to_save self objs)) (return_all_objects_info self))"
    using w(2) by (simp add: keys)
  have ledger: "objs_in_disk self' =
           Some ((case objs_in_disk self of None \<Rightarrow> [] | Some t \<Rightarrow> t) @
                 str_join '','' (keys_to_save self objs) @ '','')"
    using w(3) by (simp add: keys_to_save_def)
  from blob index ledger count show ?thesis by blast
qed

theorem repeated_key_in_batch_witness:
  "fst (save_objects 5
          (Some [Dict (galaxy_fields ''7'' 1), Instance (galaxy ''8'' 2), Instance (galaxy ''7'' 3)])
          new_store) = Returns ()
   \<and> ''7'' \<notin> obj_set new_store
   \<and> occurrences ''7'' new_store
        [Dict (galaxy_fields ''7'' 1), Instance (galaxy ''8'' 2), Instance (galaxy ''7'' 3)]
       = [galaxy ''7'' 1, galaxy ''7'' 3]
   \<and> keys_to_save new_store
        [Dict (galaxy_fields ''7'' 1), Instance (galaxy ''8'' 2), Instance (galaxy ''7'' 3)]
       = [''7'', ''8'', ''7'']
   \<and> snd (save_objects 5
          (Some [Dict (galaxy_fields ''7'' 1), Instance (galaxy ''8'' 2), Instance (galaxy ''7'' 3)])
          new_store)
       = \<lparr>objs_in_disk = Some ''7,8,7,'',
          metadata_file = Some [(pkl_name [''7'', ''8''], [''7'', ''8''])],
          pkl_dir = [(pkl_name [''7'', ''8''], [(''7'', galaxy ''7'' 3), (''8'', galaxy ''8'' 2)])],
          obj_set = {''7'', ''8''}, last_modified = 5, max_objects = 1000,
          metaclass = RedShiftCheckPointObject_class\<rparr>"
proof -
  let ?B = "[Dict (galaxy_fields ''7'' 1), Instance (galaxy ''8'' 2), Instance (galaxy ''7'' 3)]"
  have r: "fst (save_objects 5 (Some ?B) new_store) = Returns ()"
    by (simp add: save_objects_Returns_iff new_store_simps well_shaped_def as_instance_def
          galaxy_fields_init)
  then have h1: "save_objects 5 (Some ?B) new_store
                 = (Returns (), snd (save_objects 5 (Some ?B) new_store))"
    by (simp add: prod_eq_iff)
  have h2: "''7'' \<notin> obj_set new_store"
    by (simp add: new_store_simps)
  have o: "occurrences ''7'' new_store ?B = [galaxy ''7'' 1, galaxy ''7'' 3]"
    by (simp add: occurrences_def instances_def as_instance_def galaxy_fields_init
          new_store_simps)
  then have h3: "1 < length (occurrences ''7'' new_store ?B)" by simp
  have ks: "keys_to_save new_store ?B = [''7'', ''8'', ''7'']"
    by (simp add: keys_to_save_def unseen_def instances_def as_instance_def galaxy_fields_init
          new_store_simps)
  have s: "snd (save_objects 5 (Some ?B) new_store)
       = \<lparr>objs_in_disk = Some ''7,8,7,'',
          metadata_file = Some [(pkl_name [''7'', ''8''], [''7'', ''8''])],
          pkl_dir = [(pkl_name [''7'', ''8''], [(''7'', galaxy ''7'' 3), (''8'', galaxy ''8'' 2)])],
          obj_set = {''7'', ''8''}, last_modified = 5, max_objects = 1000,
          metaclass = RedShiftCheckPointObject_class\<rparr>"
    by (auto simp add: new_store_simps store_eval galaxy_fields_init)
  show ?thesis
    using r h2 o ks s repeated_key_in_batch [OF h1 h2 h3] by simp
qed

end
